theory Spec2Isabelle
  imports Main
begin

section \<open>Plecost report writers (plecost_lib/libs/reporters.py)\<close>

text \<open>
  A shallow embedding of the reporting module: the format dispatch \<open>get_reporter\<close>, the
  constructor of \<open>Reporter\<close>, and the \<open>generate\<close> methods of \<open>Reporter\<close>,
  \<open>ReporterJSON\<close> and \<open>ReporterXML\<close>. Python exceptions are values of \<open>py_error\<close>;
  a call that may raise returns a sum with the error on the left.
\<close>

subsection \<open>Exceptions\<close>

text \<open>
  Modelled from the spec: the class \<open>PlecostInvalidReportFormat\<close>, which the module
  imports from \<open>.exceptions\<close>: the "unsupported report format" domain error that
  carries the offending extension in its message. The other constructors are Python's
  built-in exceptions that the module raises or lets escape, each with its message.
\<close>

datatype py_error =
    TypeError string
  | KeyError string
  | AttributeError string
  | ValueError string
  | RecursionError string
  | OSError string
  | NotImplementedError string
  | PlecostInvalidReportFormat string

text \<open>A string in single quotes, as \<open>'%s'\<close> formats it.\<close>

definition quoted :: "string \<Rightarrow> string" where
  "quoted s = [CHR 0x27] @ s @ [CHR 0x27]"

subsection \<open>Format dispatch\<close>

text \<open>The classes of the module, as the values \<open>get_reporter\<close> returns.\<close>

datatype reporter_class = Reporter | ReporterJSON | ReporterXML

text \<open>
  \<open>str.rfind\<close> with a one-character needle: the index of the last occurrence,
  \<open>-1\<close> when there is none.
\<close>

definition rfind :: "string \<Rightarrow> char \<Rightarrow> int" where
  "rfind p c =
     (if c \<in> set p
      then int (length p) - 1 - int (length (takeWhile (\<lambda>x. x \<noteq> c) (rev p)))
      else - 1)"

text \<open>
  \<open>os.path.splitext\<close> on a POSIX path (\<open>genericpath._splitext\<close> with separator
  \<open>/\<close> and no alternative separator):
  \<^verbatim>\<open>
  sepIndex = p.rfind(sep)
  dotIndex = p.rfind(extsep)
  if dotIndex > sepIndex:
      # skip all leading dots
      filenameIndex = sepIndex + 1
      while filenameIndex < dotIndex:
          if p[filenameIndex:filenameIndex+1] != extsep:
              return p[:dotIndex], p[dotIndex:]
          filenameIndex += 1
  return p, p[:0]
  \<close>
\<close>

function skip_leading_dots :: "string \<Rightarrow> nat \<Rightarrow> nat \<Rightarrow> string \<times> string" where
  "skip_leading_dots p filenameIndex dotIndex =
     (if filenameIndex < dotIndex then
        (if take 1 (drop filenameIndex p) \<noteq> ''.''
         then (take dotIndex p, drop dotIndex p)
         else skip_leading_dots p (filenameIndex + 1) dotIndex)
      else (p, []))"
  by pat_completeness auto
termination
  by (relation "measure (\<lambda>(p, filenameIndex, dotIndex). dotIndex - filenameIndex)") auto

definition splitext :: "string \<Rightarrow> string \<times> string" where
  "splitext p =
     (let sepIndex = rfind p (CHR ''/'');
          dotIndex = rfind p (CHR ''.'')
      in if dotIndex > sepIndex
         then skip_leading_dots p (nat (sepIndex + 1)) (nat dotIndex)
         else (p, []))"

text \<open>The table \<open>dict(xml=ReporterXML, json=ReporterJSON)\<close>.\<close>

definition reporters :: "(string \<times> reporter_class) list" where
  "reporters = [(''xml'', ReporterXML), (''json'', ReporterJSON)]"

text \<open>The message \<open>"Report format '%s' not found." % extension\<close>.\<close>

definition format_not_found :: "string \<Rightarrow> string" where
  "format_not_found extension = ''Report format '' @ quoted extension @ '' not found.''"

text \<open>
  \<open>get_reporter\<close>: the extension is \<open>splitext(filename)[1][1:]\<close>; a key missing from
  the table is the \<open>KeyError\<close> the function turns into \<open>PlecostInvalidReportFormat\<close>.
  The result is a class, never an instance.
\<close>

definition get_reporter :: "string \<Rightarrow> py_error + reporter_class" where
  "get_reporter filename =
     (let extension = drop 1 (snd (splitext filename))
      in case map_of reporters extension of
           Some cls \<Rightarrow> Inr cls
         | None \<Rightarrow> Inl (PlecostInvalidReportFormat (format_not_found extension)))"

subsection \<open>The extension in words\<close>

text \<open>
  The substring after the last \<open>.\<close> of a string, when it has one: the reading of
  "extension" that takes no account of path separators or leading dots.
\<close>

definition after_last_dot :: "string \<Rightarrow> string option" where
  "after_last_dot s =
     (if CHR ''.'' \<in> set s
      then Some (rev (takeWhile (\<lambda>x. x \<noteq> CHR ''.'') (rev s)))
      else None)"

text \<open>The final component of a path: what follows its last \<open>/\<close>.\<close>

definition last_component :: "string \<Rightarrow> string" where
  "last_component p = rev (takeWhile (\<lambda>x. x \<noteq> CHR ''/'') (rev p))"

text \<open>
  The extension of a file name, in words: take the final path component; when it has a
  dot and the part before its last dot holds a character other than a dot, the extension
  is what follows that last dot; otherwise there is none (the empty string).
\<close>

definition extension_of :: "string \<Rightarrow> string" where
  "extension_of p =
     (let base = last_component p
      in case after_last_dot base of
           None \<Rightarrow> []
         | Some e \<Rightarrow>
             if list_all (\<lambda>x. x = CHR ''.'') (take (length base - Suc (length e)) base)
             then [] else e)"


subsection \<open>The constructor of \<open>Reporter\<close>\<close>

text \<open>
  The class of a string object: \<open>str\<close> itself, or a class that derives from \<open>str\<close>,
  given by its name.
\<close>

datatype str_class = Str | StrSubclass string

text \<open>
  The Python values a caller may hand to the constructor. \<open>PyStr k s\<close> is a string: an
  object of the class \<open>k\<close> with the characters \<open>s\<close>. \<open>PyObject n\<close> is an instance of
  a class named \<open>n\<close> that is none of the built-in types listed and does not derive
  from \<open>str\<close>.
\<close>

datatype py_value =
    PyNone
  | PyBool bool
  | PyInt int
  | PyBytes string
  | PyStr str_class string
  | PyList "py_value list"
  | PyObject string



text \<open>
  An instance: its class and the private attribute \<open>__output_filename\<close>, which holds
  the string object that was passed to the constructor: its characters, which the
  writers use as the name of the output file, and its class.
\<close>

record reporter =
  cls :: reporter_class
  output_filename :: string
  filename_class :: str_class






subsection \<open>The abstract \<open>generate\<close>\<close>

text \<open>
  The two built-in names involved in \<open>raise NotImplemented()\<close>: the constant
  \<open>NotImplemented\<close>, which is not callable, and the exception class
  \<open>NotImplementedError\<close>, which is. Calling an object with no arguments returns a
  value (here an exception instance) or raises.
\<close>

datatype py_builtin = NotImplemented | NotImplementedError_class

fun py_call :: "py_builtin \<Rightarrow> py_error + py_error" where
  "py_call NotImplemented =
     Inl (TypeError (quoted ''NotImplementedType'' @ '' object is not callable''))"
| "py_call NotImplementedError_class = Inr (NotImplementedError [])"

text \<open>
  \<open>raise e\<close>: an exception raised while \<open>e\<close> is evaluated is the one the
  statement ends with; otherwise the value of \<open>e\<close> is raised.
\<close>

fun py_raise :: "py_error + py_error \<Rightarrow> py_error" where
  "py_raise (Inl e) = e"
| "py_raise (Inr e) = e"

definition Reporter_generate :: "reporter \<Rightarrow> 'info \<Rightarrow> py_error + unit" where
  "Reporter_generate self info = Inl (py_raise (py_call NotImplemented))"

subsection \<open>The scan results\<close>

text \<open>
  Modelled from the spec: the classes of the scan results, which the module only reads
  (\<open>PlecostResults\<close> in the docstrings; \<open>ScanResult\<close>, its \<open>wordpress_info\<close> object
  and \<open>PluginFinding\<close> in the data model), with the attributes \<open>generate\<close> reads. A
  time stamp is a \<open>datetime\<close> with its calendar fields.
\<close>

record datetime =
  year :: nat
  month :: nat
  day :: nat
  hour :: nat
  minute :: nat
  second :: nat

record WordPressInfo =
  current_version :: string
  latest_version :: string

record PluginFinding =
  plugin_name :: string
  current_version :: string
  latest_version :: string
  plugin_uri :: string
  is_outdated :: bool
  cves :: "string list"
  exploits :: "string list"

record PlecostResults =
  target :: string
  start_time :: datetime
  end_time :: datetime
  wordpress_info :: WordPressInfo
  plugins :: "PluginFinding list"

subsection \<open>\<open>datetime.strftime\<close>\<close>

text \<open>
  The directives the reporters use, as the C library renders them: \<open>%H\<close>, \<open>%m\<close>,
  \<open>%M\<close> and \<open>%S\<close> are two digits, zero-padded; \<open>%Y\<close> is the year as a decimal
  number (four digits from the year 1000 on); \<open>%%\<close> is a percent sign. Every other
  character of the format is copied; a directive outside this list is left as written.
\<close>

definition digit :: "nat \<Rightarrow> char" where
  "digit n = ''0123456789'' ! (n mod 10)"

definition pad2 :: "nat \<Rightarrow> string" where
  "pad2 n = [digit (n div 10), digit n]"

fun decimal :: "nat \<Rightarrow> string" where
  "decimal n = (if n < 10 then [digit n] else decimal (n div 10) @ [digit n])"

definition directive :: "datetime \<Rightarrow> char \<Rightarrow> string" where
  "directive d c =
     (if c = CHR ''H'' then pad2 (hour d)
      else if c = CHR ''m'' then pad2 (month d)
      else if c = CHR ''Y'' then decimal (year d)
      else if c = CHR ''M'' then pad2 (minute d)
      else if c = CHR ''S'' then pad2 (second d)
      else if c = CHR ''%'' then ''%''
      else [CHR ''%'', c])"

fun strftime :: "datetime \<Rightarrow> string \<Rightarrow> string" where
  "strftime d [] = []"
| "strftime d [c] = [c]"
| "strftime d (c # x # rest) =
     (if c = CHR ''%'' then directive d x @ strftime d rest
      else c # strftime d (x # rest))"

subsection \<open>JSON values and dictionaries\<close>

text \<open>
  The values \<open>generate\<close> hands to \<open>json.dump\<close>. A dictionary keeps its keys in
  insertion order; \<open>d[k] = v\<close> replaces the value of a key that is present and appends
  the key otherwise.
\<close>

datatype json =
    JString string
  | JList "json list"
  | JDict "(string \<times> json) list"

fun setitem :: "(string \<times> 'v) list \<Rightarrow> string \<Rightarrow> 'v \<Rightarrow> (string \<times> 'v) list" where
  "setitem [] k v = [(k, v)]"
| "setitem ((k', v') # d) k v = (if k' = k then (k, v) # d else (k', v') # setitem d k v)"

text \<open>
  \<open>d[k].append(x)\<close>: the lookup raises \<open>KeyError\<close> on a missing key, and a value
  that is not a list has no \<open>append\<close>.
\<close>

definition getitem_append ::
  "(string \<times> json) list \<Rightarrow> string \<Rightarrow> json \<Rightarrow> py_error + (string \<times> json) list" where
  "getitem_append d k x =
     (case map_of d k of
        None \<Rightarrow> Inl (KeyError k)
      | Some (JList xs) \<Rightarrow> Inr (setitem d k (JList (xs @ [x])))
      | Some _ \<Rightarrow> Inl (AttributeError ''append''))"

subsection \<open>\<open>ReporterJSON.generate\<close>: the dictionary\<close>

text \<open>The body of the loop over \<open>info.plugins\<close> (lines 102 to 114).\<close>

definition json_plugin_of :: "PluginFinding \<Rightarrow> (string \<times> json) list" where
  "json_plugin_of plugin =
     (let json_plugin = [];
          json_plugin = setitem json_plugin ''plugin_name'' (JString (plugin_name plugin));
          json_plugin = setitem json_plugin ''current_version''
                          (JString (PluginFinding.current_version plugin));
          json_plugin = setitem json_plugin ''last_version''
                          (JString (PluginFinding.latest_version plugin));
          json_plugin = setitem json_plugin ''url'' (JString (plugin_uri plugin));
          json_plugin = setitem json_plugin ''outdated''
                          (JString (if is_outdated plugin then ''Yes'' else ''No''));
          json_plugin = setitem json_plugin ''cves'' (JList (map JString (cves plugin)));
          json_plugin = setitem json_plugin ''exploits'' (JList (map JString (exploits plugin)))
      in json_plugin)"

text \<open>The loop (lines 100 to 116): each plugin's dictionary is appended to \<open>js_info["plugins"]\<close>.\<close>

fun json_plugins_loop ::
  "PluginFinding list \<Rightarrow> (string \<times> json) list \<Rightarrow> py_error + (string \<times> json) list" where
  "json_plugins_loop [] js_info = Inr js_info"
| "json_plugins_loop (plugin # rest) js_info =
     (case getitem_append js_info ''plugins'' (JDict (json_plugin_of plugin)) of
        Inl e \<Rightarrow> Inl e
      | Inr js_info' \<Rightarrow> json_plugins_loop rest js_info')"

text \<open>Lines 83 to 116: the dictionary \<open>js_info\<close> as it stands before it is saved.\<close>

definition js_info_of :: "PlecostResults \<Rightarrow> py_error + (string \<times> json) list" where
  "js_info_of info =
     (let js_info = [];
          js_info = setitem js_info ''target'' (JString (target info));
          js_info = setitem js_info ''start_time''
                      (JString (strftime (start_time info) ''%H-%m-%Y %H:%M:%S''));
          js_info = setitem js_info ''end_time''
                      (JString (strftime (end_time info) ''%H-%m-%Y %H:%M:%S''));
          js_info = setitem js_info ''wordpress''
                      (JDict [(''current_version'',
                                 JString (WordPressInfo.current_version (wordpress_info info))),
                              (''last_version'',
                                 JString (WordPressInfo.latest_version (wordpress_info info)))]);
          js_info = setitem js_info ''plugins'' (JList [])
      in json_plugins_loop (plugins info) js_info)"


subsection \<open>ElementTree elements\<close>

text \<open>
  An element is a mutable object: \<open>SubElement\<close> appends the new element to its parent
  and returns it, and the caller then sets its text and attributes and appends children
  to it. The elements therefore live in a store, a list indexed by address, and an
  element holds the addresses of its children. \<open>attrib\<close> is the attribute dictionary.
\<close>

record xml_node =
  tag :: string
  attrib :: "(string \<times> string) list"
  node_text :: "string option"
  children :: "nat list"

type_synonym xml_store = "xml_node list"

text \<open>\<open>ET.Element(tag)\<close>: a new element at the next free address.\<close>

definition ET_Element :: "xml_store \<Rightarrow> string \<Rightarrow> nat \<times> xml_store" where
  "ET_Element s t =
     (length s, s @ [\<lparr>tag = t, attrib = [], node_text = None, children = []\<rparr>])"

text \<open>\<open>parent.append(element)\<close>, as \<open>SubElement\<close> does it.\<close>

definition append_child :: "xml_store \<Rightarrow> nat \<Rightarrow> nat \<Rightarrow> xml_store" where
  "append_child s parent element =
     s[parent := (s ! parent)\<lparr>children := children (s ! parent) @ [element]\<rparr>]"

text \<open>\<open>ET.SubElement(parent, tag)\<close>.\<close>

definition ET_SubElement :: "xml_store \<Rightarrow> nat \<Rightarrow> string \<Rightarrow> nat \<times> xml_store" where
  "ET_SubElement s parent t =
     (let (element, s) = ET_Element s t
      in (element, append_child s parent element))"

text \<open>\<open>element.text = t\<close> and \<open>element.set(key, v)\<close>.\<close>

definition set_text :: "xml_store \<Rightarrow> nat \<Rightarrow> string \<Rightarrow> xml_store" where
  "set_text s element t = s[element := (s ! element)\<lparr>node_text := Some t\<rparr>]"

definition set_attrib :: "xml_store \<Rightarrow> nat \<Rightarrow> string \<Rightarrow> string \<Rightarrow> xml_store" where
  "set_attrib s element key v =
     s[element := (s ! element)\<lparr>attrib := setitem (attrib (s ! element)) key v\<rparr>]"

text \<open>
  The tree below an element, as the serialiser walks it. It is read off a store in which
  every child was allocated after its parent, which is what \<open>Element\<close> and
  \<open>SubElement\<close> build; on any other store (a dangling address, a child at or before
  its parent) the result is \<open>None\<close>.
\<close>

datatype xml =
  XElement (xml_tag: string) (xml_attrib: "(string \<times> string) list")
           (xml_text: "string option") (xml_children: "xml list")

function tree_of :: "xml_store \<Rightarrow> nat \<Rightarrow> xml option" where
  "tree_of s a =
     (if a < length s \<and> list_all (\<lambda>k. a < k) (children (s ! a))
      then map_option (XElement (tag (s ! a)) (attrib (s ! a)) (node_text (s ! a)))
             (those (map (tree_of s) (children (s ! a))))
      else None)"
  by pat_completeness auto
termination
  by (relation "measure (\<lambda>(s, a). length s - a)") (auto simp: list_all_iff)

subsection \<open>\<open>ReporterXML.generate\<close>: the tree\<close>

text \<open>Lines 166 to 168 and 173 to 175: the loops over \<open>plugin.cves\<close> and \<open>plugin.exploits\<close>.\<close>

fun xml_cves_loop :: "string list \<Rightarrow> nat \<Rightarrow> xml_store \<Rightarrow> xml_store" where
  "xml_cves_loop [] cves_el s = s"
| "xml_cves_loop (cve # rest) cves_el s =
     (let (xml_cve, s) = ET_SubElement s cves_el ''cve'';
          s = set_text s xml_cve cve
      in xml_cves_loop rest cves_el s)"

fun xml_exploits_loop :: "string list \<Rightarrow> nat \<Rightarrow> xml_store \<Rightarrow> xml_store" where
  "xml_exploits_loop [] exploits_el s = s"
| "xml_exploits_loop (exploit # rest) exploits_el s =
     (let (xml_exploit, s) = ET_SubElement s exploits_el ''exploits'';
          s = set_text s xml_exploit exploit
      in xml_exploits_loop rest exploits_el s)"

text \<open>
  The body of the loop over \<open>info.plugins\<close> (lines 155 to 175). Both conditions test
  \<open>plugin.cves\<close>, as the source does; a list is true when it is not empty.
\<close>

definition xml_plugin_step :: "PluginFinding \<Rightarrow> nat \<Rightarrow> xml_store \<Rightarrow> xml_store" where
  "xml_plugin_step plugin plugins_el s =
     (let (xml_plugin, s) = ET_SubElement s plugins_el ''plugin'';
          s = set_text s xml_plugin (plugin_name plugin);
          s = set_attrib s xml_plugin ''current_version'' (PluginFinding.current_version plugin);
          s = set_attrib s xml_plugin ''last_version'' (PluginFinding.latest_version plugin);
          s = set_attrib s xml_plugin ''url'' (plugin_uri plugin);
          s = set_attrib s xml_plugin ''outdated'' (if is_outdated plugin then ''Yes'' else ''No'');
          s = (if cves plugin \<noteq> [] then
                 (let (cves_el, s) = ET_SubElement s xml_plugin ''cves''
                  in xml_cves_loop (cves plugin) cves_el s)
               else s);
          s = (if cves plugin \<noteq> [] then
                 (let (exploits_el, s) = ET_SubElement s xml_plugin ''exploits''
                  in xml_exploits_loop (exploits plugin) exploits_el s)
               else s)
      in s)"

fun xml_plugins_loop :: "PluginFinding list \<Rightarrow> nat \<Rightarrow> xml_store \<Rightarrow> xml_store" where
  "xml_plugins_loop [] plugins_el s = s"
| "xml_plugins_loop (plugin # rest) plugins_el s =
     xml_plugins_loop rest plugins_el (xml_plugin_step plugin plugins_el s)"

text \<open>Lines 134 to 175: the root element and the store once the tree is built.\<close>

definition build_tree :: "PlecostResults \<Rightarrow> xml_store \<Rightarrow> nat \<times> xml_store" where
  "build_tree info s =
     (let (root, s) = ET_Element s ''libs'';
          (target_el, s) = ET_SubElement s root ''target'';
          s = set_text s target_el (target info);
          (time_start, s) = ET_SubElement s root ''start_time'';
          s = set_text s time_start (strftime (start_time info) ''%H-%m-%Y %H:%M:%S'');
          (time_end, s) = ET_SubElement s root ''end_time'';
          s = set_text s time_end (strftime (end_time info) ''%H-%m-%Y %H:%M:%S'');
          (wordpress, s) = ET_SubElement s root ''wordpress'';
          s = set_attrib s wordpress ''current_version''
                (WordPressInfo.current_version (wordpress_info info));
          s = set_attrib s wordpress ''last_version''
                (WordPressInfo.latest_version (wordpress_info info));
          (plugins_el, s) = ET_SubElement s root ''plugins'';
          s = xml_plugins_loop (plugins info) plugins_el s
      in (root, s))"

subsection \<open>Files and the interpreter state\<close>

text \<open>
  What a file holds is the value that was serialised into it; the text the serialisers
  produce is not modelled. A handle is an entry of the table of file objects: its path
  and whether it has been closed. What is written through a handle is taken as the
  file's content at once (buffering is not modelled); whether the handle is closed
  afterwards is recorded separately. A handle is closed by \<open>close\<close> or on leaving the
  \<open>with\<close> block that opened it; what the garbage collector does to a file object
  that is no longer referenced is not part of the model.
\<close>

datatype document = Empty | JSONDocument json | XMLDocument xml

record file_handle =
  handle_path :: string
  handle_closed :: bool

text \<open>
  The state a call of \<open>generate\<close> runs in: the object its argument \<open>info\<close> refers
  to, the element store, the files by path, the file objects opened so far, and the
  paths that cannot be opened for writing.
\<close>

record py_state =
  results :: PlecostResults
  elements :: xml_store
  files :: "string \<rightharpoonup> document"
  handles :: "file_handle list"
  unwritable :: "string set"

text \<open>
  \<open>open(path, "w")\<close>: raises \<open>OSError\<close> when the path cannot be opened; otherwise the
  file is created or truncated and a new file object is returned.
\<close>

definition open_w :: "py_state \<Rightarrow> string \<Rightarrow> (py_error + nat) \<times> py_state" where
  "open_w st path =
     (if path \<in> unwritable st then (Inl (OSError path), st)
      else (Inr (length (handles st)),
            st\<lparr>files := (files st)(path \<mapsto> Empty),
               handles := handles st @ [\<lparr>handle_path = path, handle_closed = False\<rparr>]\<rparr>))"

text \<open>Writing a document through a file object; a closed file object raises \<open>ValueError\<close>.\<close>

definition write_handle :: "py_state \<Rightarrow> nat \<Rightarrow> document \<Rightarrow> (py_error + unit) \<times> py_state" where
  "write_handle st h doc =
     (if h < length (handles st) \<and> \<not> handle_closed (handles st ! h)
      then (Inr (), st\<lparr>files := (files st)(handle_path (handles st ! h) \<mapsto> doc)\<rparr>)
      else (Inl (ValueError ''I/O operation on closed file''), st))"

definition close_handle :: "py_state \<Rightarrow> nat \<Rightarrow> py_state" where
  "close_handle st h = st\<lparr>handles := (handles st)[h := (handles st ! h)\<lparr>handle_closed := True\<rparr>]\<rparr>"

text \<open>\<open>json.dump(obj, fp)\<close>: serialises \<open>obj\<close> into the file object; it does not close it.\<close>

definition json_dump :: "py_state \<Rightarrow> json \<Rightarrow> nat \<Rightarrow> (py_error + unit) \<times> py_state" where
  "json_dump st obj fp = write_handle st fp (JSONDocument obj)"

text \<open>
  \<open>ElementTree(root).write(filename, encoding="UTF-8")\<close> with a file name: the library
  opens the file in a \<open>with\<close> block, serialises the tree below \<open>root\<close> and closes the
  file when the block is left, also when the serialiser raises. A tree that cannot be
  walked to its end is a \<open>RecursionError\<close>.
\<close>

definition ElementTree_write :: "py_state \<Rightarrow> nat \<Rightarrow> string \<Rightarrow> (py_error + unit) \<times> py_state" where
  "ElementTree_write st root filename =
     (case open_w st filename of
        (Inl e, st) \<Rightarrow> (Inl e, st)
      | (Inr file, st) \<Rightarrow>
          (let (r, st) = (case tree_of (elements st) root of
                            None \<Rightarrow> (Inl (RecursionError ''maximum recursion depth exceeded''), st)
                          | Some t \<Rightarrow> write_handle st file (XMLDocument t))
           in (r, close_handle st file)))"

subsection \<open>The \<open>generate\<close> methods\<close>

text \<open>
  \<open>ReporterJSON.generate\<close>: the dictionary is built, then line 119,
  \<open>json.dump(js_info, open(self.output_filename, "w"))\<close>. The file object is an
  argument expression: nothing binds it and nothing closes it.
\<close>

definition ReporterJSON_generate :: "reporter \<Rightarrow> py_state \<Rightarrow> (py_error + unit) \<times> py_state" where
  "ReporterJSON_generate self st =
     (let info = results st
      in case js_info_of info of
           Inl e \<Rightarrow> (Inl e, st)
         | Inr js_info \<Rightarrow>
             (case open_w st (output_filename self) of
                (Inl e, st) \<Rightarrow> (Inl e, st)
              | (Inr fp, st) \<Rightarrow> json_dump st (JDict js_info) fp))"

text \<open>\<open>ReporterXML.generate\<close>: the tree is built in the store, then lines 178 and 179.\<close>

definition ReporterXML_generate :: "reporter \<Rightarrow> py_state \<Rightarrow> (py_error + unit) \<times> py_state" where
  "ReporterXML_generate self st =
     (let info = results st;
          (root, s) = build_tree info (elements st);
          st = st\<lparr>elements := s\<rparr>
      in ElementTree_write st root (output_filename self))"

text \<open>A call \<open>reporter.generate(info)\<close>, dispatched on the class of the instance.\<close>

definition generate :: "reporter \<Rightarrow> py_state \<Rightarrow> (py_error + unit) \<times> py_state" where
  "generate self st =
     (case cls self of
        Reporter \<Rightarrow> (Reporter_generate self (results st), st)
      | ReporterJSON \<Rightarrow> ReporterJSON_generate self st
      | ReporterXML \<Rightarrow> ReporterXML_generate self st)"

subsection \<open>The documents in closed form\<close>

text \<open>
  What the properties below show \<open>ReporterXML.generate\<close> to build, written as a term:
  the element of one plugin and the whole tree. They take no part in the model of the
  code; the proofs compare the store the code builds with them.
\<close>

definition plugin_tree :: "PluginFinding \<Rightarrow> xml" where
  "plugin_tree plugin =
     XElement ''plugin''
       [(''current_version'', PluginFinding.current_version plugin),
        (''last_version'', PluginFinding.latest_version plugin),
        (''url'', plugin_uri plugin),
        (''outdated'', if is_outdated plugin then ''Yes'' else ''No'')]
       (Some (plugin_name plugin))
       (if cves plugin = [] then []
        else [XElement ''cves'' [] None
                (map (\<lambda>cve. XElement ''cve'' [] (Some cve) []) (cves plugin)),
              XElement ''exploits'' [] None
                (map (\<lambda>exploit. XElement ''exploits'' [] (Some exploit) []) (exploits plugin))])"

definition report_tree :: "PlecostResults \<Rightarrow> xml" where
  "report_tree info =
     XElement ''libs'' [] None
       [XElement ''target'' [] (Some (target info)) [],
        XElement ''start_time'' [] (Some (strftime (start_time info) ''%H-%m-%Y %H:%M:%S'')) [],
        XElement ''end_time'' [] (Some (strftime (end_time info) ''%H-%m-%Y %H:%M:%S'')) [],
        XElement ''wordpress''
          [(''current_version'', WordPressInfo.current_version (wordpress_info info)),
           (''last_version'', WordPressInfo.latest_version (wordpress_info info))] None [],
        XElement ''plugins'' [] None (map plugin_tree (plugins info))]"

subsection \<open>Relations between stores, for the proofs\<close>

text \<open>
  \<open>frame_from n s s'\<close>: the store has only grown and no element below address \<open>n\<close> has
  changed. \<open>adds_child s p s' t\<close>: from \<open>s\<close> to \<open>s'\<close> one child was appended to the
  element \<open>p\<close>, at the first free address of \<open>s\<close>; its tree in \<open>s'\<close> is \<open>t\<close>, and no
  other element of \<open>s\<close> has changed.
\<close>

definition frame_from :: "nat \<Rightarrow> xml_store \<Rightarrow> xml_store \<Rightarrow> bool" where
  "frame_from n s s' \<longleftrightarrow>
     length s \<le> length s' \<and> (\<forall>k. k < n \<and> k < length s \<longrightarrow> s' ! k = s ! k)"

definition adds_child :: "xml_store \<Rightarrow> nat \<Rightarrow> xml_store \<Rightarrow> xml \<Rightarrow> bool" where
  "adds_child s p s' t \<longleftrightarrow>
     length s < length s' \<and>
     (\<forall>k < length s. k \<noteq> p \<longrightarrow> s' ! k = s ! k) \<and>
     s' ! p = (s ! p)\<lparr>children := children (s ! p) @ [length s]\<rparr> \<and>
     tree_of s' (length s) = Some t"

subsection \<open>Example inputs\<close>

text \<open>
  A scan of \<open>http://example.com\<close> with WordPress 4.1 (latest 4.7.3), started and ended
  on 15 March 2020 at 14:05:09, with a given list of plugin findings; three findings
  (no CVE and no exploit; one CVE and no exploit; no CVE and one exploit); and a state
  in which nothing has been allocated, written or opened and every path can be opened.
\<close>

definition example_time :: datetime where
  "example_time = \<lparr>year = 2020, month = 3, day = 15, hour = 14, minute = 5, second = 9\<rparr>"

definition example_results :: "PluginFinding list \<Rightarrow> PlecostResults" where
  "example_results ps =
     \<lparr>target = ''http://example.com'', start_time = example_time, end_time = example_time,
      wordpress_info = \<lparr>WordPressInfo.current_version = ''4.1'', latest_version = ''4.7.3''\<rparr>,
      plugins = ps\<rparr>"

definition akismet :: PluginFinding where
  "akismet =
     \<lparr>plugin_name = ''akismet'', current_version = ''3.1'', latest_version = ''3.1'',
      plugin_uri = ''http://x/akismet'', is_outdated = False, cves = [], exploits = []\<rparr>"

definition cve_only :: PluginFinding where
  "cve_only =
     \<lparr>plugin_name = ''gallery'', current_version = ''1.0'', latest_version = ''2.0'',
      plugin_uri = ''http://x/gallery'', is_outdated = True,
      cves = [''CVE-2020-1''], exploits = []\<rparr>"

definition exploit_only :: PluginFinding where
  "exploit_only =
     \<lparr>plugin_name = ''forms'', current_version = ''1.0'', latest_version = ''2.0'',
      plugin_uri = ''http://x/forms'', is_outdated = True,
      cves = [], exploits = [''exploit-A'']\<rparr>"

definition example_state :: "PluginFinding list \<Rightarrow> py_state" where
  "example_state ps =
     \<lparr>results = example_results ps, elements = [], files = Map.empty, handles = [],
      unwritable = {}\<rparr>"

section \<open>Properties\<close>

declare skip_leading_dots.simps [simp del]
declare tree_of.simps [simp del]
declare decimal.simps [simp del]

subsection \<open>\<open>splitext\<close> computes the extension\<close>

text \<open>
  The loop of \<open>splitext\<close> in closed form: it splits at \<open>dotIndex\<close> as soon as it meets
  a character that is not a dot, and gives no extension when it meets none.
\<close>

lemma skip_leading_dots_eq:
  "skip_leading_dots p i j =
     (if \<exists>k. i \<le> k \<and> k < j \<and> take 1 (drop k p) \<noteq> ''.''
      then (take j p, drop j p) else (p, []))"
proof (induction p i j rule: skip_leading_dots.induct)
  case (1 p i j)
  show ?case
  proof (cases "i < j")
    case False
    then show ?thesis by (subst skip_leading_dots.simps) auto
  next
    case True
    show ?thesis
    proof (cases "take 1 (drop i p) \<noteq> ''.''")
      case True
      with \<open>i < j\<close> have "\<exists>k. i \<le> k \<and> k < j \<and> take 1 (drop k p) \<noteq> ''.''"
        by (intro exI[of _ i]) simp
      with True \<open>i < j\<close> show ?thesis by (subst skip_leading_dots.simps) simp
    next
      case False
      then have here: "take 1 (drop i p) = ''.''" by simp
      have "(\<exists>k. i \<le> k \<and> k < j \<and> take 1 (drop k p) \<noteq> ''.'') =
            (\<exists>k. i + 1 \<le> k \<and> k < j \<and> take 1 (drop k p) \<noteq> ''.'')"
      proof
        assume "\<exists>k. i \<le> k \<and> k < j \<and> take 1 (drop k p) \<noteq> ''.''"
        then obtain k where k: "i \<le> k" "k < j" "take 1 (drop k p) \<noteq> ''.''" by blast
        with here have "k \<noteq> i" by auto
        with k show "\<exists>k. i + 1 \<le> k \<and> k < j \<and> take 1 (drop k p) \<noteq> ''.''"
          by (intro exI[of _ k]) simp
      next
        assume "\<exists>k. i + 1 \<le> k \<and> k < j \<and> take 1 (drop k p) \<noteq> ''.''"
        then show "\<exists>k. i \<le> k \<and> k < j \<and> take 1 (drop k p) \<noteq> ''.''"
          by (metis add_leD1)
      qed
      with "1.IH"[OF \<open>i < j\<close>] here \<open>i < j\<close> show ?thesis
        by (subst skip_leading_dots.simps) simp
    qed
  qed
qed

lemma dots_segment:
  assumes "j \<le> length p"
  shows "(\<exists>k. i \<le> k \<and> k < j \<and> take 1 (drop k p) \<noteq> ''.'') =
         (\<not> list_all (\<lambda>x. x = CHR ''.'') (take (j - i) (drop i p)))"
proof -
  have one: "take 1 (drop k p) = [p ! k]" if "k < j" for k
    using that assms by (simp add: take_Suc_conv_app_nth)
  have "(\<not> list_all (\<lambda>x. x = CHR ''.'') (take (j - i) (drop i p))) =
        (\<exists>n < j - i. p ! (i + n) \<noteq> CHR ''.'')"
    using assms by (auto simp: list_all_length)
  also have "\<dots> = (\<exists>k. i \<le> k \<and> k < j \<and> p ! k \<noteq> CHR ''.'')"
  proof
    assume "\<exists>n < j - i. p ! (i + n) \<noteq> CHR ''.''"
    then obtain n where "n < j - i" "p ! (i + n) \<noteq> CHR ''.''" by blast
    then show "\<exists>k. i \<le> k \<and> k < j \<and> p ! k \<noteq> CHR ''.''"
      by (intro exI[of _ "i + n"]) auto
  next
    assume "\<exists>k. i \<le> k \<and> k < j \<and> p ! k \<noteq> CHR ''.''"
    then obtain k where "i \<le> k" "k < j" "p ! k \<noteq> CHR ''.''" by blast
    then show "\<exists>n < j - i. p ! (i + n) \<noteq> CHR ''.''"
      by (intro exI[of _ "k - i"]) auto
  qed
  also have "\<dots> = (\<exists>k. i \<le> k \<and> k < j \<and> take 1 (drop k p) \<noteq> ''.'')"
    using one by auto
  finally show ?thesis by simp
qed

lemma takeWhile_two_length:
  "c \<noteq> d \<Longrightarrow>
   (c \<in> set (takeWhile (\<lambda>x. x \<noteq> d) r)) =
   (length (takeWhile (\<lambda>x. x \<noteq> c) r) < length (takeWhile (\<lambda>x. x \<noteq> d) r))"
  by (induction r) auto

lemma takeWhile_nested:
  "c \<in> set (takeWhile (\<lambda>x. x \<noteq> d) r) \<Longrightarrow>
   takeWhile (\<lambda>x. x \<noteq> c) (takeWhile (\<lambda>x. x \<noteq> d) r) = takeWhile (\<lambda>x. x \<noteq> c) r"
  by (induction r) (auto split: if_splits)

lemma takeWhile_is_take: "takeWhile P r = take (length (takeWhile P r)) r"
  by (induction r) auto


lemma rfind_sep: "rfind p (CHR ''/'') = int (length p) - int (length (last_component p)) - 1"
proof (cases "CHR ''/'' \<in> set p")
  case True
  then show ?thesis by (simp add: rfind_def last_component_def)
next
  case False
  then have tw: "takeWhile (\<lambda>x. x \<noteq> CHR ''/'') (rev p) = rev p"
    by (intro takeWhile_eq_all_conv[THEN iffD2]) auto
  show ?thesis using False by (simp add: rfind_def last_component_def tw)
qed

lemma splitext_extension: "drop 1 (snd (splitext p)) = extension_of p"
proof -
  define r where "r = rev p"
  define a where "a = takeWhile (\<lambda>x. x \<noteq> CHR ''/'') r"
  define b where "b = takeWhile (\<lambda>x. x \<noteq> CHR ''.'') r"
  have base: "last_component p = rev a" by (simp add: last_component_def a_def r_def)
  have la: "length a \<le> length p"
    unfolding a_def r_def using length_takeWhile_le[of _ "rev p"] by simp
  have lb: "length b \<le> length p"
    unfolding b_def r_def using length_takeWhile_le[of _ "rev p"] by simp
  have sep: "rfind p (CHR ''/'') = int (length p) - int (length a) - 1"
    using rfind_sep[of p] base by simp
  have dot_in: "(CHR ''.'' \<in> set a) = (length b < length a)"
    unfolding a_def b_def by (rule takeWhile_two_length) simp
  show ?thesis
  proof (cases "CHR ''.'' \<in> set a")
    case False
    then have no_ext: "extension_of p = []"
      by (simp add: extension_of_def base after_last_dot_def)
    have "\<not> rfind p (CHR ''.'') > rfind p (CHR ''/'')"
    proof (cases "CHR ''.'' \<in> set p")
      case True
      with False dot_in sep show ?thesis
        by (simp add: rfind_def b_def r_def)
    next
      case False
      with sep la show ?thesis by (simp add: rfind_def)
    qed
    then show ?thesis by (simp add: splitext_def Let_def no_ext)
  next
    case True
    then have lt: "length b < length a" using dot_in by simp
    have inp: "CHR ''.'' \<in> set p"
      using True set_takeWhileD[of "CHR ''.''" _ r] by (auto simp: a_def r_def)
    have dot: "rfind p (CHR ''.'') = int (length p) - 1 - int (length b)"
      using inp by (simp add: rfind_def b_def r_def)
    have gt: "rfind p (CHR ''.'') > rfind p (CHR ''/'')" using dot sep lt by simp
    have nested: "takeWhile (\<lambda>x. x \<noteq> CHR ''.'') a = b"
      unfolding a_def b_def using True[unfolded a_def] by (rule takeWhile_nested)
    have ald: "after_last_dot (rev a) = Some (rev b)"
      using True nested by (simp add: after_last_dot_def)
    let ?i = "length p - length a" and ?j = "length p - Suc (length b)"
    have i: "nat (rfind p (CHR ''/'') + 1) = ?i" using sep la by simp
    have j: "nat (rfind p (CHR ''.'')) = ?j" using dot lb lt la by simp
    have jle: "?j \<le> length p" by simp
    have reva: "rev a = drop ?i p"
    proof -
      have "a = take (length a) (rev p)"
        unfolding a_def r_def by (rule takeWhile_is_take)
      then have "rev a = rev (take (length a) (rev p))" by simp
      then show ?thesis by (simp add: rev_take)
    qed
    have revb: "rev b = drop (Suc ?j) p"
    proof -
      have "b = take (length b) (rev p)"
        unfolding b_def r_def by (rule takeWhile_is_take)
      then have "rev b = rev (take (length b) (rev p))" by simp
      moreover have "Suc ?j = length p - length b" using lt la by simp
      ultimately show ?thesis by (simp add: rev_take)
    qed
    have seg: "take (length (rev a) - Suc (length (rev b))) (rev a) = take (?j - ?i) (drop ?i p)"
      using reva lt la by simp
    have "splitext p =
        skip_leading_dots p (nat (rfind p (CHR ''/'') + 1)) (nat (rfind p (CHR ''.'')))"
      unfolding splitext_def Let_def using gt by (rule if_P)
    then have "splitext p = skip_leading_dots p ?i ?j" by (simp only: i j)
    then have "splitext p =
        (if \<not> list_all (\<lambda>x. x = CHR ''.'') (take (?j - ?i) (drop ?i p))
         then (take ?j p, drop ?j p) else (p, []))"
      by (simp only: skip_leading_dots_eq dots_segment[OF jle])
    moreover have "extension_of p =
        (if list_all (\<lambda>x. x = CHR ''.'') (take (?j - ?i) (drop ?i p)) then [] else rev b)"
      unfolding extension_of_def base Let_def ald seg[symmetric] by simp
    ultimately show ?thesis using revb by (simp add: drop_Suc drop_tl)
  qed
qed

subsection \<open>Format dispatch\<close>

text \<open>
  C1, as stated, fails: the file name \<open>.json\<close> has the substring \<open>json\<close> after its last
  dot, yet \<open>splitext\<close> treats a leading dot as part of the root, the extension is empty
  and \<open>get_reporter\<close> raises \<open>PlecostInvalidReportFormat\<close>.
\<close>

theorem get_reporter_leading_dot_counterexample:
  "after_last_dot ''.json'' = Some ''json'' \<and>
   get_reporter ''.json'' = Inl (PlecostInvalidReportFormat (format_not_found []))"
  by (simp add: after_last_dot_def get_reporter_def splitext_def rfind_def
      skip_leading_dots.simps reporters_def)

text \<open>
  C1, amended: with the extension taken as \<open>os.path.splitext\<close> computes it (what follows
  the last dot of the final path component, provided a character other than a dot comes
  before that dot in the component), \<open>get_reporter\<close> returns the class \<open>ReporterJSON\<close>
  when the extension is exactly \<open>json\<close>, the class \<open>ReporterXML\<close> when it is exactly
  \<open>xml\<close>, and raises \<open>PlecostInvalidReportFormat\<close> for every other file name (another
  extension, another case, or none). The result is a class: no instance is constructed.
\<close>

theorem get_reporter_by_extension:
  "get_reporter filename =
     (if extension_of filename = ''json'' then Inr ReporterJSON
      else if extension_of filename = ''xml'' then Inr ReporterXML
      else Inl (PlecostInvalidReportFormat (format_not_found (extension_of filename))))"
  unfolding get_reporter_def Let_def splitext_extension
  by (simp add: reporters_def)

theorem get_reporter_by_extension_witness:
  "get_reporter ''report.json'' = Inr ReporterJSON \<and>
   get_reporter ''dir.d/report.xml'' = Inr ReporterXML \<and>
   get_reporter ''report.JSON'' = Inl (PlecostInvalidReportFormat (format_not_found ''JSON'')) \<and>
   get_reporter ''report.txt'' = Inl (PlecostInvalidReportFormat (format_not_found ''txt'')) \<and>
   get_reporter ''report'' = Inl (PlecostInvalidReportFormat (format_not_found []))"
  using get_reporter_by_extension [of "''report.json''"]
        get_reporter_by_extension [of "''dir.d/report.xml''"]
        get_reporter_by_extension [of "''report.JSON''"]
        get_reporter_by_extension [of "''report.txt''"]
        get_reporter_by_extension [of "''report''"]
  by (simp add: extension_of_def last_component_def after_last_dot_def)

subsection \<open>The JSON dictionary\<close>

lemma map_of_setitem: "map_of (setitem d k v) k = Some v"
  by (induction d k v rule: setitem.induct) auto

lemma setitem_setitem: "setitem (setitem d k v) k v' = setitem d k v'"
  by (induction d k v rule: setitem.induct) auto

lemma json_plugins_loop_eq:
  "map_of js_info ''plugins'' = Some (JList xs) \<Longrightarrow>
   json_plugins_loop ps js_info =
     Inr (setitem js_info ''plugins'' (JList (xs @ map (\<lambda>plugin. JDict (json_plugin_of plugin)) ps)))"
proof (induction ps arbitrary: js_info xs)
  case Nil
  then show ?case
    by (induction js_info) (auto split: if_splits)
next
  case (Cons plugin rest)
  let ?x = "JDict (json_plugin_of plugin)"
  let ?js = "setitem js_info ''plugins'' (JList (xs @ [?x]))"
  have step: "getitem_append js_info ''plugins'' ?x = Inr ?js"
    using Cons.prems by (simp add: getitem_append_def)
  have "map_of ?js ''plugins'' = Some (JList (xs @ [?x]))"
    by (rule map_of_setitem)
  from Cons.IH[OF this] step show ?case
    by (simp add: setitem_setitem)
qed

lemma json_plugin_of_eq:
  "json_plugin_of plugin =
     [(''plugin_name'', JString (plugin_name plugin)),
      (''current_version'', JString (PluginFinding.current_version plugin)),
      (''last_version'', JString (PluginFinding.latest_version plugin)),
      (''url'', JString (plugin_uri plugin)),
      (''outdated'', JString (if is_outdated plugin then ''Yes'' else ''No'')),
      (''cves'', JList (map JString (cves plugin))),
      (''exploits'', JList (map JString (exploits plugin)))]"
  by (simp add: json_plugin_of_def)

lemma js_info_of_eq:
  "js_info_of info =
     Inr [(''target'', JString (target info)),
          (''start_time'', JString (strftime (start_time info) ''%H-%m-%Y %H:%M:%S'')),
          (''end_time'', JString (strftime (end_time info) ''%H-%m-%Y %H:%M:%S'')),
          (''wordpress'',
             JDict [(''current_version'', JString (WordPressInfo.current_version (wordpress_info info))),
                    (''last_version'', JString (WordPressInfo.latest_version (wordpress_info info)))]),
          (''plugins'', JList (map (\<lambda>plugin. JDict (json_plugin_of plugin)) (plugins info)))]"
proof -
  let ?js = "[(''target'', JString (target info)),
          (''start_time'', JString (strftime (start_time info) ''%H-%m-%Y %H:%M:%S'')),
          (''end_time'', JString (strftime (end_time info) ''%H-%m-%Y %H:%M:%S'')),
          (''wordpress'',
             JDict [(''current_version'', JString (WordPressInfo.current_version (wordpress_info info))),
                    (''last_version'', JString (WordPressInfo.latest_version (wordpress_info info)))]),
          (''plugins'', JList [])]"
  have "js_info_of info = json_plugins_loop (plugins info) ?js"
    by (simp add: js_info_of_def)
  moreover have "map_of ?js ''plugins'' = Some (JList [])" by simp
  ultimately show ?thesis
    by (simp add: json_plugins_loop_eq)
qed

lemma ReporterJSON_generate_eq:
  assumes "js_info_of (results st) = Inr js_info"
  shows "ReporterJSON_generate self st =
     (if output_filename self \<in> unwritable st then (Inl (OSError (output_filename self)), st)
      else (Inr (),
            st\<lparr>files := (files st)(output_filename self \<mapsto> JSONDocument (JDict js_info)),
               handles := handles st @
                 [\<lparr>handle_path = output_filename self, handle_closed = False\<rparr>]\<rparr>))"
  using assms
  by (simp add: ReporterJSON_generate_def open_w_def json_dump_def write_handle_def nth_append)

subsection \<open>Reading trees off the element store\<close>

lemma those_Some_D: "those xs = Some ys \<Longrightarrow> x \<in> set xs \<Longrightarrow> \<exists>y. x = Some y"
  by (induction xs arbitrary: ys) (auto split: option.splits)

lemma those_append:
  "those xs = Some ys \<Longrightarrow> those (xs @ [Some y]) = Some (ys @ [y])"
  by (induction xs arbitrary: ys) (auto split: option.splits)

lemma tree_of_Some_iff:
  "tree_of s a = Some t \<longleftrightarrow>
     a < length s \<and> list_all (\<lambda>k. a < k) (children (s ! a)) \<and>
     (\<exists>ts. those (map (tree_of s) (children (s ! a))) = Some ts \<and>
           t = XElement (tag (s ! a)) (attrib (s ! a)) (node_text (s ! a)) ts)"
  by (subst tree_of.simps) auto

lemma tree_of_stable:
  "tree_of s a = Some t \<Longrightarrow> length s \<le> length s' \<Longrightarrow>
   (\<forall>k. a \<le> k \<and> k < length s \<longrightarrow> s' ! k = s ! k) \<Longrightarrow> tree_of s' a = Some t"
proof (induction s a arbitrary: t rule: tree_of.induct)
  case (1 s a)
  from "1.prems"(1) obtain ts where a: "a < length s"
    and fw: "list_all (\<lambda>k. a < k) (children (s ! a))"
    and ts: "those (map (tree_of s) (children (s ! a))) = Some ts"
    and t: "t = XElement (tag (s ! a)) (attrib (s ! a)) (node_text (s ! a)) ts"
    unfolding tree_of_Some_iff by blast
  have same: "s' ! a = s ! a" using "1.prems" a by simp
  have old: "map (tree_of s') (children (s ! a)) = map (tree_of s) (children (s ! a))"
  proof (rule map_cong[OF refl])
    fix k assume k: "k \<in> set (children (s ! a))"
    then have ak: "a < k" using fw by (simp add: list_all_iff)
    from k have "tree_of s k \<in> set (map (tree_of s) (children (s ! a)))" by simp
    from those_Some_D[OF ts this] obtain tk where tk: "tree_of s k = Some tk" by blast
    have "\<forall>j. k \<le> j \<and> j < length s \<longrightarrow> s' ! j = s ! j"
      using "1.prems"(3) ak by auto
    from "1.IH"[OF _ k tk "1.prems"(2) this] a fw have "tree_of s' k = Some tk" by simp
    with tk show "tree_of s' k = tree_of s k" by simp
  qed
  have "those (map (tree_of s') (children (s ! a))) = Some ts"
    using ts by (simp only: old)
  with a fw t same "1.prems"(2) show ?case
    unfolding tree_of_Some_iff[of s'] by auto
qed

lemma tree_of_leaf:
  "n < length s \<Longrightarrow> children (s ! n) = [] \<Longrightarrow>
   tree_of s n = Some (XElement (tag (s ! n)) (attrib (s ! n)) (node_text (s ! n)) [])"
  by (simp add: tree_of_Some_iff)

lemma append_child_tree:
  assumes p: "p < length s"
    and tp: "tree_of s p = Some (XElement T A X kids)"
    and ac: "adds_child s p s' t"
  shows "tree_of s' p = Some (XElement T A X (kids @ [t]))"
proof -
  from tp have fw: "list_all (\<lambda>k. p < k) (children (s ! p))"
    and ts: "those (map (tree_of s) (children (s ! p))) = Some kids"
    and nd: "tag (s ! p) = T" "attrib (s ! p) = A" "node_text (s ! p) = X"
    unfolding tree_of_Some_iff by auto
  from ac have len: "length s < length s'"
    and frame: "\<forall>k < length s. k \<noteq> p \<longrightarrow> s' ! k = s ! k"
    and sp: "s' ! p = (s ! p)\<lparr>children := children (s ! p) @ [length s]\<rparr>"
    and tn: "tree_of s' (length s) = Some t"
    unfolding adds_child_def by auto
  have old: "map (tree_of s') (children (s ! p)) = map (tree_of s) (children (s ! p))"
  proof (rule map_cong[OF refl])
    fix k assume k: "k \<in> set (children (s ! p))"
    then have pk: "p < k" using fw by (simp add: list_all_iff)
    from k have "tree_of s k \<in> set (map (tree_of s) (children (s ! p)))" by simp
    from those_Some_D[OF ts this] obtain tk where tk: "tree_of s k = Some tk" by blast
    have "\<forall>j. k \<le> j \<and> j < length s \<longrightarrow> s' ! j = s ! j" using frame pk by auto
    from tree_of_stable[OF tk _ this] len have "tree_of s' k = Some tk" by simp
    with tk show "tree_of s' k = tree_of s k" by simp
  qed
  have "those (map (tree_of s') (children (s ! p) @ [length s])) = Some (kids @ [t])"
    using those_append[OF ts, of t] by (simp only: map_append list.map old tn)
  with p len fw sp nd show ?thesis
    unfolding tree_of_Some_iff[of s'] by auto
qed

lemma frame_from_refl: "frame_from n s s"
  by (simp add: frame_from_def)

lemma frame_from_trans: "frame_from n s s' \<Longrightarrow> frame_from n s' s'' \<Longrightarrow> frame_from n s s''"
  by (auto simp: frame_from_def)

lemma frame_from_set_text: "n \<le> e \<Longrightarrow> frame_from n s (set_text s e x)"
  by (auto simp: frame_from_def set_text_def)

lemma frame_from_set_attrib: "n \<le> e \<Longrightarrow> frame_from n s (set_attrib s e k v)"
  by (auto simp: frame_from_def set_attrib_def)

lemma frame_from_SubElement: "n \<le> e \<Longrightarrow> frame_from n s (snd (ET_SubElement s e t))"
  by (auto simp: frame_from_def ET_SubElement_def ET_Element_def append_child_def nth_append)

lemma adds_child_frame: "adds_child s p s' t \<Longrightarrow> n \<le> p \<Longrightarrow> frame_from n s s'"
  by (auto simp: adds_child_def frame_from_def)

lemma fst_SubElement: "fst (ET_SubElement s p t) = length s"
  by (simp add: ET_SubElement_def ET_Element_def)

lemma SubElement_eq:
  "ET_SubElement s p t =
     (length s, (s @ [\<lparr>tag = t, attrib = [], node_text = None, children = []\<rparr>])
                  [p := (s ! p)\<lparr>children := children (s ! p) @ [length s]\<rparr>])" if "p < length s"
  using that by (simp add: ET_SubElement_def ET_Element_def append_child_def nth_append)

lemma adds_child_intro:
  assumes p: "p < length s"
    and fr: "frame_from (length s) (snd (ET_SubElement s p tg)) s'"
    and tn: "tree_of s' (length s) = Some t"
  shows "adds_child s p s' t"
proof -
  let ?s1 = "snd (ET_SubElement s p tg)"
  have l1: "length ?s1 = Suc (length s)" using p by (simp add: SubElement_eq)
  have k1: "\<forall>k < length s. k \<noteq> p \<longrightarrow> ?s1 ! k = s ! k"
    using p by (simp add: SubElement_eq nth_append)
  have p1: "?s1 ! p = (s ! p)\<lparr>children := children (s ! p) @ [length s]\<rparr>"
    using p by (simp add: SubElement_eq)
  from fr have len: "length ?s1 \<le> length s'"
    and same: "\<forall>k. k < length s \<longrightarrow> s' ! k = ?s1 ! k"
    unfolding frame_from_def using l1 by auto
  show ?thesis
    unfolding adds_child_def using len l1 same k1 p1 tn p by auto
qed

subsection \<open>The loops of \<open>ReporterXML.generate\<close>\<close>

lemma length_SubElement: "p < length s \<Longrightarrow> length (snd (ET_SubElement s p t)) = Suc (length s)"
  by (simp add: SubElement_eq)

lemma new_SubElement:
  "p < length s \<Longrightarrow>
   snd (ET_SubElement s p t) ! length s = \<lparr>tag = t, attrib = [], node_text = None, children = []\<rparr>"
  by (simp add: SubElement_eq)

lemma text_child:
  assumes p: "p < length s"
  shows "adds_child s p (set_text (snd (ET_SubElement s p tg)) (length s) x)
           (XElement tg [] (Some x) [])"
proof (rule adds_child_intro[OF p])
  show "frame_from (length s) (snd (ET_SubElement s p tg))
          (set_text (snd (ET_SubElement s p tg)) (length s) x)"
    by (rule frame_from_set_text) simp
  let ?s' = "set_text (snd (ET_SubElement s p tg)) (length s) x"
  have n: "?s' ! length s = \<lparr>tag = tg, attrib = [], node_text = Some x, children = []\<rparr>"
    using p by (simp add: set_text_def new_SubElement length_SubElement)
  have "length s < length ?s'" using p by (simp add: set_text_def length_SubElement)
  from tree_of_leaf[OF this] n
  show "tree_of ?s' (length s) = Some (XElement tg [] (Some x) [])" by simp
qed

lemma xml_cves_loop_Cons:
  "xml_cves_loop (cve # rest) c s =
   xml_cves_loop rest c (set_text (snd (ET_SubElement s c ''cve'')) (length s) cve)"
  using fst_SubElement[of s c "''cve''"] by (simp add: case_prod_beta)

lemma xml_exploits_loop_Cons:
  "xml_exploits_loop (exploit # rest) c s =
   xml_exploits_loop rest c (set_text (snd (ET_SubElement s c ''exploits'')) (length s) exploit)"
  using fst_SubElement[of s c "''exploits''"] by (simp add: case_prod_beta)

lemma adds_child_length: "adds_child s p s' t \<Longrightarrow> length s < length s'"
  by (simp add: adds_child_def)

lemma xml_cves_loop_tree:
  "c < length s \<Longrightarrow> tree_of s c = Some (XElement T A X kids) \<Longrightarrow>
   tree_of (xml_cves_loop cs c s) c =
     Some (XElement T A X (kids @ map (\<lambda>cve. XElement ''cve'' [] (Some cve) []) cs))"
proof (induction cs arbitrary: s kids)
  case Nil
  then show ?case by simp
next
  case (Cons cve rest)
  let ?s' = "set_text (snd (ET_SubElement s c ''cve'')) (length s) cve"
  have ac: "adds_child s c ?s' (XElement ''cve'' [] (Some cve) [])"
    using Cons.prems(1) by (rule text_child)
  have "tree_of ?s' c = Some (XElement T A X (kids @ [XElement ''cve'' [] (Some cve) []]))"
    using Cons.prems ac by (rule append_child_tree)
  moreover have "c < length ?s'" using adds_child_length[OF ac] Cons.prems(1) by simp
  ultimately show ?case
    using Cons.IH[of ?s'] by (simp only: xml_cves_loop_Cons) simp
qed

lemma xml_cves_loop_frame:
  "c < length s \<Longrightarrow> n \<le> c \<Longrightarrow> frame_from n s (xml_cves_loop cs c s)"
proof (induction cs arbitrary: s)
  case Nil
  then show ?case by (simp add: frame_from_refl)
next
  case (Cons cve rest)
  let ?s' = "set_text (snd (ET_SubElement s c ''cve'')) (length s) cve"
  have ac: "adds_child s c ?s' (XElement ''cve'' [] (Some cve) [])"
    using Cons.prems(1) by (rule text_child)
  have "c < length ?s'" using adds_child_length[OF ac] Cons.prems(1) by simp
  from Cons.IH[OF this Cons.prems(2)] adds_child_frame[OF ac Cons.prems(2)]
  show ?case by (simp only: xml_cves_loop_Cons) (rule frame_from_trans)
qed

lemma xml_exploits_loop_tree:
  "c < length s \<Longrightarrow> tree_of s c = Some (XElement T A X kids) \<Longrightarrow>
   tree_of (xml_exploits_loop es c s) c =
     Some (XElement T A X (kids @ map (\<lambda>exploit. XElement ''exploits'' [] (Some exploit) []) es))"
proof (induction es arbitrary: s kids)
  case Nil
  then show ?case by simp
next
  case (Cons exploit rest)
  let ?s' = "set_text (snd (ET_SubElement s c ''exploits'')) (length s) exploit"
  have ac: "adds_child s c ?s' (XElement ''exploits'' [] (Some exploit) [])"
    using Cons.prems(1) by (rule text_child)
  have "tree_of ?s' c = Some (XElement T A X (kids @ [XElement ''exploits'' [] (Some exploit) []]))"
    using Cons.prems ac by (rule append_child_tree)
  moreover have "c < length ?s'" using adds_child_length[OF ac] Cons.prems(1) by simp
  ultimately show ?case
    using Cons.IH[of ?s'] by (simp only: xml_exploits_loop_Cons) simp
qed

lemma xml_exploits_loop_frame:
  "c < length s \<Longrightarrow> n \<le> c \<Longrightarrow> frame_from n s (xml_exploits_loop es c s)"
proof (induction es arbitrary: s)
  case Nil
  then show ?case by (simp add: frame_from_refl)
next
  case (Cons exploit rest)
  let ?s' = "set_text (snd (ET_SubElement s c ''exploits'')) (length s) exploit"
  have ac: "adds_child s c ?s' (XElement ''exploits'' [] (Some exploit) [])"
    using Cons.prems(1) by (rule text_child)
  have "c < length ?s'" using adds_child_length[OF ac] Cons.prems(1) by simp
  from Cons.IH[OF this Cons.prems(2)] adds_child_frame[OF ac Cons.prems(2)]
  show ?case by (simp only: xml_exploits_loop_Cons) (rule frame_from_trans)
qed

lemma cves_child:
  assumes p: "p < length s"
  shows "adds_child s p (xml_cves_loop cs (length s) (snd (ET_SubElement s p ''cves'')))
           (XElement ''cves'' [] None (map (\<lambda>cve. XElement ''cve'' [] (Some cve) []) cs))"
proof (rule adds_child_intro[OF p])
  let ?s1 = "snd (ET_SubElement s p ''cves'')"
  have l: "length s < length ?s1" using p by (simp add: length_SubElement)
  show "frame_from (length s) ?s1 (xml_cves_loop cs (length s) ?s1)"
    using l by (rule xml_cves_loop_frame) simp
  have "tree_of ?s1 (length s) = Some (XElement ''cves'' [] None [])"
    using tree_of_leaf[OF l] p by (simp add: new_SubElement)
  from xml_cves_loop_tree[OF l this, of cs]
  show "tree_of (xml_cves_loop cs (length s) ?s1) (length s) =
          Some (XElement ''cves'' [] None (map (\<lambda>cve. XElement ''cve'' [] (Some cve) []) cs))"
    by simp
qed

lemma exploits_child:
  assumes p: "p < length s"
  shows "adds_child s p (xml_exploits_loop es (length s) (snd (ET_SubElement s p ''exploits'')))
           (XElement ''exploits'' [] None
              (map (\<lambda>exploit. XElement ''exploits'' [] (Some exploit) []) es))"
proof (rule adds_child_intro[OF p])
  let ?s1 = "snd (ET_SubElement s p ''exploits'')"
  have l: "length s < length ?s1" using p by (simp add: length_SubElement)
  show "frame_from (length s) ?s1 (xml_exploits_loop es (length s) ?s1)"
    using l by (rule xml_exploits_loop_frame) simp
  have "tree_of ?s1 (length s) = Some (XElement ''exploits'' [] None [])"
    using tree_of_leaf[OF l] p by (simp add: new_SubElement)
  from xml_exploits_loop_tree[OF l this, of es]
  show "tree_of (xml_exploits_loop es (length s) ?s1) (length s) =
          Some (XElement ''exploits'' [] None
                  (map (\<lambda>exploit. XElement ''exploits'' [] (Some exploit) []) es))"
    by simp
qed

lemma length_set_text: "length (set_text s e x) = length s"
  by (simp add: set_text_def)

lemma length_set_attrib: "length (set_attrib s e k v) = length s"
  by (simp add: set_attrib_def)

lemma nth_set_text: "e < length s \<Longrightarrow> set_text s e x ! e = (s ! e)\<lparr>node_text := Some x\<rparr>"
  by (simp add: set_text_def)

lemma nth_set_attrib:
  "e < length s \<Longrightarrow> set_attrib s e k v ! e = (s ! e)\<lparr>attrib := setitem (attrib (s ! e)) k v\<rparr>"
  by (simp add: set_attrib_def)

lemma xml_plugin_step_child:
  assumes p: "p < length s"
  shows "adds_child s p (xml_plugin_step plugin p s) (plugin_tree plugin)"
proof -
  define n where "n = length s"
  define s1 where "s1 = snd (ET_SubElement s p ''plugin'')"
  define s2 where "s2 = set_text s1 n (plugin_name plugin)"
  define s3 where "s3 = set_attrib s2 n ''current_version'' (PluginFinding.current_version plugin)"
  define s4 where "s4 = set_attrib s3 n ''last_version'' (PluginFinding.latest_version plugin)"
  define s5 where "s5 = set_attrib s4 n ''url'' (plugin_uri plugin)"
  define s6 where "s6 = set_attrib s5 n ''outdated'' (if is_outdated plugin then ''Yes'' else ''No'')"
  define s7 where "s7 = (if cves plugin \<noteq> []
      then xml_cves_loop (cves plugin) (length s6) (snd (ET_SubElement s6 n ''cves'')) else s6)"
  define s8 where "s8 = (if cves plugin \<noteq> []
      then xml_exploits_loop (exploits plugin) (length s7) (snd (ET_SubElement s7 n ''exploits''))
      else s7)"
  define attrs where "attrs =
       [(''current_version'', PluginFinding.current_version plugin),
        (''last_version'', PluginFinding.latest_version plugin),
        (''url'', plugin_uri plugin),
        (''outdated'', if is_outdated plugin then ''Yes'' else ''No'')]"
  define ct where "ct = XElement ''cves'' [] None
                (map (\<lambda>cve. XElement ''cve'' [] (Some cve) []) (cves plugin))"
  define et where "et = XElement ''exploits'' [] None
                (map (\<lambda>exploit. XElement ''exploits'' [] (Some exploit) []) (exploits plugin))"
  have step: "xml_plugin_step plugin p s = s8"
    unfolding xml_plugin_step_def s8_def s7_def s6_def s5_def s4_def s3_def s2_def s1_def n_def
    by (simp add: case_prod_beta Let_def fst_SubElement)
  have l1: "length s1 = Suc n" unfolding s1_def n_def using p by (rule length_SubElement)
  have l6: "length s6 = Suc n"
    unfolding s6_def s5_def s4_def s3_def s2_def by (simp add: length_set_attrib length_set_text l1)
  have n1: "s1 ! n = \<lparr>tag = ''plugin'', attrib = [], node_text = None, children = []\<rparr>"
    unfolding s1_def n_def using p by (rule new_SubElement)
  have n6: "s6 ! n = \<lparr>tag = ''plugin'', attrib = attrs,
                      node_text = Some (plugin_name plugin), children = []\<rparr>"
    unfolding s6_def s5_def s4_def s3_def s2_def attrs_def
    by (simp add: nth_set_attrib nth_set_text length_set_attrib length_set_text l1 n1)
  have t6: "tree_of s6 n = Some (XElement ''plugin'' attrs (Some (plugin_name plugin)) [])"
    using tree_of_leaf[of n s6] l6 n6 by simp
  have f12: "frame_from n s1 s2" unfolding s2_def by (rule frame_from_set_text) simp
  have f23: "frame_from n s2 s3" unfolding s3_def by (rule frame_from_set_attrib) simp
  have f34: "frame_from n s3 s4" unfolding s4_def by (rule frame_from_set_attrib) simp
  have f45: "frame_from n s4 s5" unfolding s5_def by (rule frame_from_set_attrib) simp
  have f56: "frame_from n s5 s6" unfolding s6_def by (rule frame_from_set_attrib) simp
  have f16: "frame_from n s1 s6"
    using f12 f23 f34 f45 f56 by (blast intro: frame_from_trans)
  show ?thesis
  proof (cases "cves plugin = []")
    case True
    then have "s8 = s6" by (simp add: s8_def s7_def)
    moreover have "plugin_tree plugin = XElement ''plugin'' attrs (Some (plugin_name plugin)) []"
      using True by (simp add: plugin_tree_def attrs_def)
    moreover have "adds_child s p s6 (XElement ''plugin'' attrs (Some (plugin_name plugin)) [])"
      using p f16 t6 unfolding s1_def n_def by (rule adds_child_intro)
    ultimately show ?thesis by (simp add: step)
  next
    case False
    have n6lt: "n < length s6" by (simp add: l6)
    have s7: "s7 = xml_cves_loop (cves plugin) (length s6) (snd (ET_SubElement s6 n ''cves''))"
      using False by (simp add: s7_def)
    have ac7: "adds_child s6 n s7 ct"
      unfolding s7 ct_def using n6lt by (rule cves_child)
    have t7: "tree_of s7 n = Some (XElement ''plugin'' attrs (Some (plugin_name plugin)) ([] @ [ct]))"
      using n6lt t6 ac7 by (rule append_child_tree)
    have n7lt: "n < length s7" using adds_child_length[OF ac7] n6lt by simp
    have s8: "s8 = xml_exploits_loop (exploits plugin) (length s7) (snd (ET_SubElement s7 n ''exploits''))"
      using False by (simp add: s8_def)
    have ac8: "adds_child s7 n s8 et"
      unfolding s8 et_def using n7lt by (rule exploits_child)
    have t8: "tree_of s8 n =
        Some (XElement ''plugin'' attrs (Some (plugin_name plugin)) (([] @ [ct]) @ [et]))"
      using n7lt t7 ac8 by (rule append_child_tree)
    have f67: "frame_from n s6 s7" using ac7 by (rule adds_child_frame) simp
    have f78: "frame_from n s7 s8" using ac8 by (rule adds_child_frame) simp
    have f18: "frame_from n s1 s8"
      using f16 f67 f78 by (blast intro: frame_from_trans)
    have "plugin_tree plugin =
        XElement ''plugin'' attrs (Some (plugin_name plugin)) (([] @ [ct]) @ [et])"
      using False by (simp add: plugin_tree_def attrs_def ct_def et_def)
    moreover have "adds_child s p s8
        (XElement ''plugin'' attrs (Some (plugin_name plugin)) (([] @ [ct]) @ [et]))"
      using p f18 t8 unfolding s1_def n_def by (rule adds_child_intro)
    ultimately show ?thesis by (simp add: step)
  qed
qed

lemma xml_plugins_loop_tree:
  "p < length s \<Longrightarrow> tree_of s p = Some (XElement T A X kids) \<Longrightarrow>
   tree_of (xml_plugins_loop ps p s) p = Some (XElement T A X (kids @ map plugin_tree ps))"
proof (induction ps arbitrary: s kids)
  case Nil
  then show ?case by simp
next
  case (Cons plugin rest)
  let ?s' = "xml_plugin_step plugin p s"
  have ac: "adds_child s p ?s' (plugin_tree plugin)"
    using Cons.prems(1) by (rule xml_plugin_step_child)
  have "tree_of ?s' p = Some (XElement T A X (kids @ [plugin_tree plugin]))"
    using Cons.prems ac by (rule append_child_tree)
  moreover have "p < length ?s'" using adds_child_length[OF ac] Cons.prems(1) by simp
  ultimately show ?case
    using Cons.IH[of ?s'] by simp
qed

lemma xml_plugins_loop_frame:
  "p < length s \<Longrightarrow> n \<le> p \<Longrightarrow> frame_from n s (xml_plugins_loop ps p s)"
proof (induction ps arbitrary: s)
  case Nil
  then show ?case by (simp add: frame_from_refl)
next
  case (Cons plugin rest)
  let ?s' = "xml_plugin_step plugin p s"
  have ac: "adds_child s p ?s' (plugin_tree plugin)"
    using Cons.prems(1) by (rule xml_plugin_step_child)
  have "p < length ?s'" using adds_child_length[OF ac] Cons.prems(1) by simp
  from Cons.IH[OF this Cons.prems(2)] adds_child_frame[OF ac Cons.prems(2)]
  show ?case by (simp add: frame_from_trans)
qed

lemma plugins_child:
  assumes p: "p < length s"
  shows "adds_child s p (xml_plugins_loop ps (length s) (snd (ET_SubElement s p ''plugins'')))
           (XElement ''plugins'' [] None (map plugin_tree ps))"
proof (rule adds_child_intro[OF p])
  let ?s1 = "snd (ET_SubElement s p ''plugins'')"
  have l: "length s < length ?s1" using p by (simp add: length_SubElement)
  show "frame_from (length s) ?s1 (xml_plugins_loop ps (length s) ?s1)"
    using l by (rule xml_plugins_loop_frame) simp
  have "tree_of ?s1 (length s) = Some (XElement ''plugins'' [] None [])"
    using tree_of_leaf[OF l] p by (simp add: new_SubElement)
  from xml_plugins_loop_tree[OF l this, of ps]
  show "tree_of (xml_plugins_loop ps (length s) ?s1) (length s) =
          Some (XElement ''plugins'' [] None (map plugin_tree ps))"
    by simp
qed

lemma wordpress_child:
  assumes p: "p < length s" and k: "k1 \<noteq> k2"
  shows "adds_child s p
           (set_attrib (set_attrib (snd (ET_SubElement s p tg)) (length s) k1 v1) (length s) k2 v2)
           (XElement tg [(k1, v1), (k2, v2)] None [])"
proof (rule adds_child_intro[OF p])
  let ?s1 = "snd (ET_SubElement s p tg)"
  let ?s2 = "set_attrib ?s1 (length s) k1 v1"
  let ?s3 = "set_attrib ?s2 (length s) k2 v2"
  have "frame_from (length s) ?s1 ?s2" by (rule frame_from_set_attrib) simp
  moreover have "frame_from (length s) ?s2 ?s3" by (rule frame_from_set_attrib) simp
  ultimately show "frame_from (length s) ?s1 ?s3" by (rule frame_from_trans)
  have l: "length s < length ?s3" using p by (simp add: length_set_attrib length_SubElement)
  have "?s3 ! length s = \<lparr>tag = tg, attrib = [(k1, v1), (k2, v2)], node_text = None, children = []\<rparr>"
    using p k by (simp add: nth_set_attrib length_set_attrib length_SubElement new_SubElement)
  with tree_of_leaf[OF l]
  show "tree_of ?s3 (length s) = Some (XElement tg [(k1, v1), (k2, v2)] None [])" by simp
qed

lemma build_tree_root: "fst (build_tree info s) = length s"
  by (simp add: build_tree_def ET_Element_def case_prod_beta Let_def)

lemma build_tree_document:
  "tree_of (snd (build_tree info s0)) (length s0) = Some (report_tree info)"
proof -
  define root where "root = length s0"
  define sa where "sa = s0 @ [\<lparr>tag = ''libs'', attrib = [], node_text = None, children = []\<rparr>]"
  define sb where "sb = set_text (snd (ET_SubElement sa root ''target'')) (length sa) (target info)"
  define sc where "sc = set_text (snd (ET_SubElement sb root ''start_time'')) (length sb)
                          (strftime (start_time info) ''%H-%m-%Y %H:%M:%S'')"
  define sd where "sd = set_text (snd (ET_SubElement sc root ''end_time'')) (length sc)
                          (strftime (end_time info) ''%H-%m-%Y %H:%M:%S'')"
  define se where "se = set_attrib (set_attrib (snd (ET_SubElement sd root ''wordpress'')) (length sd)
                          ''current_version'' (WordPressInfo.current_version (wordpress_info info)))
                          (length sd) ''last_version'' (WordPressInfo.latest_version (wordpress_info info))"
  define sf where "sf = xml_plugins_loop (plugins info) (length se)
                          (snd (ET_SubElement se root ''plugins''))"
  define t1 where "t1 = XElement ''target'' [] (Some (target info)) []"
  define t2 where "t2 = XElement ''start_time'' []
                          (Some (strftime (start_time info) ''%H-%m-%Y %H:%M:%S'')) []"
  define t3 where "t3 = XElement ''end_time'' []
                          (Some (strftime (end_time info) ''%H-%m-%Y %H:%M:%S'')) []"
  define t4 where "t4 = XElement ''wordpress''
          [(''current_version'', WordPressInfo.current_version (wordpress_info info)),
           (''last_version'', WordPressInfo.latest_version (wordpress_info info))] None []"
  define t5 where "t5 = XElement ''plugins'' [] None (map plugin_tree (plugins info))"
  have built: "snd (build_tree info s0) = sf"
    unfolding build_tree_def sf_def se_def sd_def sc_def sb_def sa_def root_def
    by (simp add: ET_Element_def case_prod_beta Let_def fst_SubElement)
  have la: "root < length sa" by (simp add: sa_def root_def)
  have ta: "tree_of sa root = Some (XElement ''libs'' [] None [])"
    using tree_of_leaf[OF la] by (simp add: sa_def root_def)
  have ab: "adds_child sa root sb t1" unfolding sb_def t1_def using la by (rule text_child)
  have tb: "tree_of sb root = Some (XElement ''libs'' [] None ([] @ [t1]))"
    using la ta ab by (rule append_child_tree)
  have lb: "root < length sb" using adds_child_length[OF ab] la by simp
  have bc: "adds_child sb root sc t2" unfolding sc_def t2_def using lb by (rule text_child)
  have tc: "tree_of sc root = Some (XElement ''libs'' [] None (([] @ [t1]) @ [t2]))"
    using lb tb bc by (rule append_child_tree)
  have lc: "root < length sc" using adds_child_length[OF bc] lb by simp
  have cd: "adds_child sc root sd t3" unfolding sd_def t3_def using lc by (rule text_child)
  have td: "tree_of sd root = Some (XElement ''libs'' [] None ((([] @ [t1]) @ [t2]) @ [t3]))"
    using lc tc cd by (rule append_child_tree)
  have ld: "root < length sd" using adds_child_length[OF cd] lc by simp
  have de: "adds_child sd root se t4"
    unfolding se_def t4_def using ld by (rule wordpress_child) simp
  have te: "tree_of se root =
      Some (XElement ''libs'' [] None (((([] @ [t1]) @ [t2]) @ [t3]) @ [t4]))"
    using ld td de by (rule append_child_tree)
  have le: "root < length se" using adds_child_length[OF de] ld by simp
  have ef: "adds_child se root sf t5" unfolding sf_def t5_def using le by (rule plugins_child)
  have tf: "tree_of sf root =
      Some (XElement ''libs'' [] None ((((([] @ [t1]) @ [t2]) @ [t3]) @ [t4]) @ [t5]))"
    using le te ef by (rule append_child_tree)
  then show ?thesis
    by (simp add: built root_def report_tree_def t1_def t2_def t3_def t4_def t5_def)
qed

subsection \<open>What \<open>generate\<close> returns and leaves behind\<close>

lemma ReporterXML_generate_eq:
  "ReporterXML_generate self st =
     (if output_filename self \<in> unwritable st
      then (Inl (OSError (output_filename self)),
            st\<lparr>elements := snd (build_tree (results st) (elements st))\<rparr>)
      else (Inr (),
            st\<lparr>elements := snd (build_tree (results st) (elements st)),
               files := (files st)(output_filename self \<mapsto> XMLDocument (report_tree (results st))),
               handles := handles st @
                 [\<lparr>handle_path = output_filename self, handle_closed = True\<rparr>]\<rparr>))"
  using build_tree_document[of "results st" "elements st"] build_tree_root[of "results st" "elements st"]
  by (simp add: ReporterXML_generate_def ElementTree_write_def open_w_def write_handle_def
      close_handle_def case_prod_beta Let_def nth_append)

lemma strftime_format:
  "strftime d ''%H-%m-%Y %H:%M:%S'' =
     pad2 (hour d) @ ''-'' @ pad2 (month d) @ ''-'' @ decimal (year d) @ '' '' @
     pad2 (hour d) @ '':'' @ pad2 (minute d) @ '':'' @ pad2 (second d)"
  by (simp add: directive_def)

subsection \<open>The JSON report\<close>

text \<open>
  C2: for every scan result, the dictionary \<open>ReporterJSON.generate\<close> hands to
  \<open>json.dump\<close> has exactly the keys \<open>target\<close>, \<open>start_time\<close>, \<open>end_time\<close>,
  \<open>wordpress\<close> (with \<open>current_version\<close> and \<open>last_version\<close>) and \<open>plugins\<close>, in
  this order; \<open>plugins\<close> is a list with one dictionary per finding, in the order of the
  input, each with exactly the keys \<open>plugin_name\<close>, \<open>current_version\<close>,
  \<open>last_version\<close>, \<open>url\<close>, \<open>outdated\<close> (\<open>Yes\<close> when \<open>is_outdated\<close> holds, \<open>No\<close>
  otherwise), \<open>cves\<close> and \<open>exploits\<close>, the last two always present. When the output
  file can be opened, the call returns normally and the file holds this object. With
  no findings the list is empty.
\<close>

theorem ReporterJSON_generate_object:
  "let js_info =
         [(''target'', JString (target (results st))),
          (''start_time'', JString (strftime (start_time (results st)) ''%H-%m-%Y %H:%M:%S'')),
          (''end_time'', JString (strftime (end_time (results st)) ''%H-%m-%Y %H:%M:%S'')),
          (''wordpress'',
             JDict [(''current_version'',
                       JString (WordPressInfo.current_version (wordpress_info (results st)))),
                    (''last_version'',
                       JString (WordPressInfo.latest_version (wordpress_info (results st))))]),
          (''plugins'',
             JList (map (\<lambda>plugin.
                      JDict [(''plugin_name'', JString (plugin_name plugin)),
                             (''current_version'', JString (PluginFinding.current_version plugin)),
                             (''last_version'', JString (PluginFinding.latest_version plugin)),
                             (''url'', JString (plugin_uri plugin)),
                             (''outdated'', JString (if is_outdated plugin then ''Yes'' else ''No'')),
                             (''cves'', JList (map JString (cves plugin))),
                             (''exploits'', JList (map JString (exploits plugin)))])
                    (plugins (results st))))]
   in js_info_of (results st) = Inr js_info \<and>
      (output_filename self \<notin> unwritable st \<longrightarrow>
         fst (ReporterJSON_generate self st) = Inr () \<and>
         files (snd (ReporterJSON_generate self st)) (output_filename self) =
           Some (JSONDocument (JDict js_info)))"
proof -
  have js: "js_info_of (results st) =
      Inr [(''target'', JString (target (results st))),
          (''start_time'', JString (strftime (start_time (results st)) ''%H-%m-%Y %H:%M:%S'')),
          (''end_time'', JString (strftime (end_time (results st)) ''%H-%m-%Y %H:%M:%S'')),
          (''wordpress'',
             JDict [(''current_version'',
                       JString (WordPressInfo.current_version (wordpress_info (results st)))),
                    (''last_version'',
                       JString (WordPressInfo.latest_version (wordpress_info (results st))))]),
          (''plugins'',
             JList (map (\<lambda>plugin.
                      JDict [(''plugin_name'', JString (plugin_name plugin)),
                             (''current_version'', JString (PluginFinding.current_version plugin)),
                             (''last_version'', JString (PluginFinding.latest_version plugin)),
                             (''url'', JString (plugin_uri plugin)),
                             (''outdated'', JString (if is_outdated plugin then ''Yes'' else ''No'')),
                             (''cves'', JList (map JString (cves plugin))),
                             (''exploits'', JList (map JString (exploits plugin)))])
                    (plugins (results st))))]"
    by (simp only: js_info_of_eq json_plugin_of_eq)
  show ?thesis
    unfolding Let_def using js ReporterJSON_generate_eq[OF js, of self] by simp
qed

theorem ReporterJSON_generate_object_witness:
  "output_filename \<lparr>cls = ReporterJSON, output_filename = ''out.json'', filename_class = Str\<rparr>
     \<notin> unwritable (example_state []) \<and>
   output_filename \<lparr>cls = ReporterJSON, output_filename = ''out.json'', filename_class = Str\<rparr>
     \<notin> unwritable (example_state [akismet]) \<and>
   files (snd (ReporterJSON_generate \<lparr>cls = ReporterJSON, output_filename = ''out.json'', filename_class = Str\<rparr>
                 (example_state []))) ''out.json'' =
     Some (JSONDocument (JDict
       [(''target'', JString ''http://example.com''),
        (''start_time'', JString ''14-03-2020 14:05:09''),
        (''end_time'', JString ''14-03-2020 14:05:09''),
        (''wordpress'', JDict [(''current_version'', JString ''4.1''),
                                (''last_version'', JString ''4.7.3'')]),
        (''plugins'', JList [])])) \<and>
   files (snd (ReporterJSON_generate \<lparr>cls = ReporterJSON, output_filename = ''out.json'', filename_class = Str\<rparr>
                 (example_state [akismet]))) ''out.json'' =
     Some (JSONDocument (JDict
       [(''target'', JString ''http://example.com''),
        (''start_time'', JString ''14-03-2020 14:05:09''),
        (''end_time'', JString ''14-03-2020 14:05:09''),
        (''wordpress'', JDict [(''current_version'', JString ''4.1''),
                                (''last_version'', JString ''4.7.3'')]),
        (''plugins'', JList
           [JDict [(''plugin_name'', JString ''akismet''),
                   (''current_version'', JString ''3.1''),
                   (''last_version'', JString ''3.1''),
                   (''url'', JString ''http://x/akismet''),
                   (''outdated'', JString ''No''),
                   (''cves'', JList []),
                   (''exploits'', JList [])]])]))"
  using ReporterJSON_generate_object
          [of "example_state []" "\<lparr>cls = ReporterJSON, output_filename = ''out.json'', filename_class = Str\<rparr>"]
        ReporterJSON_generate_object
          [of "example_state [akismet]" "\<lparr>cls = ReporterJSON, output_filename = ''out.json'', filename_class = Str\<rparr>"]
  by (simp add: Let_def example_state_def example_results_def akismet_def example_time_def
      directive_def pad2_def decimal.simps digit_def)

subsection \<open>The XML report\<close>

text \<open>
  C3: for every scan result, the tree \<open>ReporterXML.generate\<close> builds has the root
  \<open>libs\<close> with the children, in this order, \<open>target\<close> (its text the target),
  \<open>start_time\<close>, \<open>end_time\<close>, \<open>wordpress\<close> (attributes \<open>current_version\<close> and
  \<open>last_version\<close>, no text, no children) and \<open>plugins\<close>; \<open>plugins\<close> has one child
  per finding, in the order of the input, each tagged \<open>plugin\<close>, with the plugin name
  as text and the attributes \<open>current_version\<close>, \<open>last_version\<close>, \<open>url\<close> and
  \<open>outdated\<close> (\<open>Yes\<close> or \<open>No\<close>). When the output file can be opened, the call
  returns normally and the file holds this tree.
\<close>

theorem ReporterXML_generate_document:
  "\<exists>pes.
     (let doc = XElement ''libs'' [] None
          [XElement ''target'' [] (Some (target (results st))) [],
           XElement ''start_time'' []
             (Some (strftime (start_time (results st)) ''%H-%m-%Y %H:%M:%S'')) [],
           XElement ''end_time'' []
             (Some (strftime (end_time (results st)) ''%H-%m-%Y %H:%M:%S'')) [],
           XElement ''wordpress''
             [(''current_version'', WordPressInfo.current_version (wordpress_info (results st))),
              (''last_version'', WordPressInfo.latest_version (wordpress_info (results st)))]
             None [],
           XElement ''plugins'' [] None pes]
      in tree_of (elements (snd (ReporterXML_generate self st))) (length (elements st)) = Some doc \<and>
         (output_filename self \<notin> unwritable st \<longrightarrow>
            fst (ReporterXML_generate self st) = Inr () \<and>
            files (snd (ReporterXML_generate self st)) (output_filename self) =
              Some (XMLDocument doc))) \<and>
     map xml_tag pes = map (\<lambda>plugin. ''plugin'') (plugins (results st)) \<and>
     map xml_text pes = map (\<lambda>plugin. Some (plugin_name plugin)) (plugins (results st)) \<and>
     map xml_attrib pes =
       map (\<lambda>plugin. [(''current_version'', PluginFinding.current_version plugin),
                       (''last_version'', PluginFinding.latest_version plugin),
                       (''url'', plugin_uri plugin),
                       (''outdated'', if is_outdated plugin then ''Yes'' else ''No'')])
           (plugins (results st))"
proof -
  have el: "elements (snd (ReporterXML_generate self st)) =
            snd (build_tree (results st) (elements st))"
    by (simp add: ReporterXML_generate_eq)
  show ?thesis
    apply (rule exI[of _ "map plugin_tree (plugins (results st))"])
    unfolding Let_def el build_tree_document
    by (simp add: ReporterXML_generate_eq report_tree_def plugin_tree_def)
qed

theorem ReporterXML_generate_document_witness:
  "output_filename \<lparr>cls = ReporterXML, output_filename = ''out.xml'', filename_class = Str\<rparr>
     \<notin> unwritable (example_state [akismet]) \<and>
   (\<exists>pes.
     files (snd (ReporterXML_generate \<lparr>cls = ReporterXML, output_filename = ''out.xml'', filename_class = Str\<rparr>
                   (example_state [akismet]))) ''out.xml'' =
       Some (XMLDocument (XElement ''libs'' [] None
          [XElement ''target'' [] (Some ''http://example.com'') [],
           XElement ''start_time'' [] (Some ''14-03-2020 14:05:09'') [],
           XElement ''end_time'' [] (Some ''14-03-2020 14:05:09'') [],
           XElement ''wordpress''
             [(''current_version'', ''4.1''), (''last_version'', ''4.7.3'')] None [],
           XElement ''plugins'' [] None pes])) \<and>
     map xml_tag pes = [''plugin''] \<and>
     map xml_text pes = [Some ''akismet''] \<and>
     map xml_attrib pes =
       [[(''current_version'', ''3.1''), (''last_version'', ''3.1''),
         (''url'', ''http://x/akismet''), (''outdated'', ''No'')]])"
  using ReporterXML_generate_document
          [where self = "\<lparr>cls = ReporterXML, output_filename = ''out.xml'', filename_class = Str\<rparr>"
             and st = "example_state [akismet]"]
  by (auto simp: Let_def example_state_def example_results_def akismet_def example_time_def
      directive_def pad2_def decimal.simps digit_def)

text \<open>
  C4: in the tree \<open>ReporterXML.generate\<close> builds, the element of a finding without
  CVEs has no children at all, whatever its exploits; the element of a finding with
  CVEs has two children, \<open>cves\<close> with one \<open>cve\<close> child per CVE, and \<open>exploits\<close>
  with one child per exploit, each tagged \<open>exploits\<close> and holding the exploit as text.
  When the output file can be opened, the file holds this tree.
\<close>

theorem ReporterXML_generate_plugin_children:
  "\<exists>top pes.
     (let doc = XElement ''libs'' [] None (top @ [XElement ''plugins'' [] None pes])
      in tree_of (elements (snd (ReporterXML_generate self st))) (length (elements st)) = Some doc \<and>
         (output_filename self \<notin> unwritable st \<longrightarrow>
            files (snd (ReporterXML_generate self st)) (output_filename self) =
              Some (XMLDocument doc))) \<and>
     map xml_children pes =
       map (\<lambda>plugin.
              if cves plugin = [] then []
              else [XElement ''cves'' [] None
                      (map (\<lambda>cve. XElement ''cve'' [] (Some cve) []) (cves plugin)),
                    XElement ''exploits'' [] None
                      (map (\<lambda>exploit. XElement ''exploits'' [] (Some exploit) [])
                         (exploits plugin))])
           (plugins (results st))"
proof -
  have el: "elements (snd (ReporterXML_generate self st)) =
            snd (build_tree (results st) (elements st))"
    by (simp add: ReporterXML_generate_eq)
  let ?top = "[XElement ''target'' [] (Some (target (results st))) [],
           XElement ''start_time'' []
             (Some (strftime (start_time (results st)) ''%H-%m-%Y %H:%M:%S'')) [],
           XElement ''end_time'' []
             (Some (strftime (end_time (results st)) ''%H-%m-%Y %H:%M:%S'')) [],
           XElement ''wordpress''
             [(''current_version'', WordPressInfo.current_version (wordpress_info (results st))),
              (''last_version'', WordPressInfo.latest_version (wordpress_info (results st)))]
             None []]"
  show ?thesis
    apply (rule exI[of _ ?top])
    apply (rule exI[of _ "map plugin_tree (plugins (results st))"])
    unfolding Let_def el build_tree_document
    by (simp add: ReporterXML_generate_eq report_tree_def plugin_tree_def)
qed

theorem ReporterXML_generate_plugin_children_witness:
  "output_filename \<lparr>cls = ReporterXML, output_filename = ''out.xml'', filename_class = Str\<rparr>
     \<notin> unwritable (example_state [akismet, exploit_only, cve_only]) \<and>
   (\<exists>top pes.
     files (snd (ReporterXML_generate \<lparr>cls = ReporterXML, output_filename = ''out.xml'', filename_class = Str\<rparr>
                   (example_state [akismet, exploit_only, cve_only]))) ''out.xml'' =
       Some (XMLDocument
               (XElement ''libs'' [] None (top @ [XElement ''plugins'' [] None pes]))) \<and>
     map xml_children pes =
       [[], [],
        [XElement ''cves'' [] None [XElement ''cve'' [] (Some ''CVE-2020-1'') []],
         XElement ''exploits'' [] None []]])"
  using ReporterXML_generate_plugin_children
          [where self = "\<lparr>cls = ReporterXML, output_filename = ''out.xml'', filename_class = Str\<rparr>"
             and st = "example_state [akismet, exploit_only, cve_only]"]
  by (auto simp: Let_def example_state_def example_results_def akismet_def exploit_only_def
      cve_only_def)

text \<open>
  C5 says that a finding with the CVE \<open>CVE-2020-1\<close> and no exploit gets a \<open>cves\<close>
  element and no \<open>exploits\<close> element. The code tests \<open>plugin.cves\<close> a second time
  where the exploits are set (line 171), so it builds the \<open>cves\<close> element with its one
  \<open>cve\<close> child and, after it, an \<open>exploits\<close> element without children.
\<close>

theorem ReporterXML_generate_cve_only_exploits_element:
  "files (snd (ReporterXML_generate \<lparr>cls = ReporterXML, output_filename = ''out.xml'', filename_class = Str\<rparr>
                 (example_state [cve_only]))) ''out.xml'' =
     Some (XMLDocument (XElement ''libs'' [] None
        [XElement ''target'' [] (Some ''http://example.com'') [],
         XElement ''start_time'' [] (Some ''14-03-2020 14:05:09'') [],
         XElement ''end_time'' [] (Some ''14-03-2020 14:05:09'') [],
         XElement ''wordpress''
           [(''current_version'', ''4.1''), (''last_version'', ''4.7.3'')] None [],
         XElement ''plugins'' [] None
           [XElement ''plugin''
              [(''current_version'', ''1.0''), (''last_version'', ''2.0''),
               (''url'', ''http://x/gallery''), (''outdated'', ''Yes'')]
              (Some ''gallery'')
              [XElement ''cves'' [] None [XElement ''cve'' [] (Some ''CVE-2020-1'') []],
               XElement ''exploits'' [] None []]]]))"
  by (simp add: ReporterXML_generate_eq report_tree_def plugin_tree_def example_state_def
      example_results_def cve_only_def example_time_def directive_def pad2_def decimal.simps digit_def)

subsection \<open>The time format\<close>

text \<open>
  C6: both writers render \<open>start_time\<close> and \<open>end_time\<close> with the format
  \<open>%H-%m-%Y %H:%M:%S\<close> as it is written: the hour, a dash, the month, a dash, the
  year, a space, then the hour again, the minute and the second, separated by colons.
  The day of the month does not appear. The texts so formatted are the values of
  \<open>start_time\<close> and \<open>end_time\<close> in the JSON object and the texts of the elements
  \<open>start_time\<close> and \<open>end_time\<close> in the XML tree, in the store and, when the output
  file can be opened, in the file.
\<close>

theorem generate_time_format:
  "(\<exists>js_info.
      js_info_of (results st) = Inr js_info \<and>
      (output_filename json_reporter \<notin> unwritable st \<longrightarrow>
         files (snd (ReporterJSON_generate json_reporter st)) (output_filename json_reporter) =
           Some (JSONDocument (JDict js_info))) \<and>
      map_of js_info ''start_time'' =
        Some (JString (strftime (start_time (results st)) ''%H-%m-%Y %H:%M:%S'')) \<and>
      map_of js_info ''end_time'' =
        Some (JString (strftime (end_time (results st)) ''%H-%m-%Y %H:%M:%S''))) \<and>
   (\<exists>first rest.
      (let doc = XElement ''libs'' [] None
             (first #
              XElement ''start_time'' []
                (Some (strftime (start_time (results st)) ''%H-%m-%Y %H:%M:%S'')) [] #
              XElement ''end_time'' []
                (Some (strftime (end_time (results st)) ''%H-%m-%Y %H:%M:%S'')) [] #
              rest)
       in tree_of (elements (snd (ReporterXML_generate xml_reporter st))) (length (elements st)) =
            Some doc \<and>
          (output_filename xml_reporter \<notin> unwritable st \<longrightarrow>
             files (snd (ReporterXML_generate xml_reporter st)) (output_filename xml_reporter) =
               Some (XMLDocument doc)))) \<and>
   strftime d ''%H-%m-%Y %H:%M:%S'' =
     pad2 (hour d) @ ''-'' @ pad2 (month d) @ ''-'' @ decimal (year d) @ '' '' @
     pad2 (hour d) @ '':'' @ pad2 (minute d) @ '':'' @ pad2 (second d)"
proof -
  have el: "elements (snd (ReporterXML_generate xml_reporter st)) =
            snd (build_tree (results st) (elements st))"
    by (simp add: ReporterXML_generate_eq)
  have xml: "\<exists>first rest.
      (let doc = XElement ''libs'' [] None
             (first #
              XElement ''start_time'' []
                (Some (strftime (start_time (results st)) ''%H-%m-%Y %H:%M:%S'')) [] #
              XElement ''end_time'' []
                (Some (strftime (end_time (results st)) ''%H-%m-%Y %H:%M:%S'')) [] #
              rest)
       in tree_of (elements (snd (ReporterXML_generate xml_reporter st))) (length (elements st)) =
            Some doc \<and>
          (output_filename xml_reporter \<notin> unwritable st \<longrightarrow>
             files (snd (ReporterXML_generate xml_reporter st)) (output_filename xml_reporter) =
               Some (XMLDocument doc)))"
    unfolding Let_def el build_tree_document
    by (simp add: ReporterXML_generate_eq report_tree_def del: strftime.simps)
  have json: "\<exists>js_info.
      js_info_of (results st) = Inr js_info \<and>
      (output_filename json_reporter \<notin> unwritable st \<longrightarrow>
         files (snd (ReporterJSON_generate json_reporter st)) (output_filename json_reporter) =
           Some (JSONDocument (JDict js_info))) \<and>
      map_of js_info ''start_time'' =
        Some (JString (strftime (start_time (results st)) ''%H-%m-%Y %H:%M:%S'')) \<and>
      map_of js_info ''end_time'' =
        Some (JString (strftime (end_time (results st)) ''%H-%m-%Y %H:%M:%S''))"
    by (simp add: js_info_of_eq ReporterJSON_generate_eq[OF js_info_of_eq] del: strftime.simps)
  from json xml strftime_format[of d] show ?thesis by blast
qed

theorem generate_time_format_witness:
  "output_filename \<lparr>cls = ReporterJSON, output_filename = ''out.json'', filename_class = Str\<rparr>
     \<notin> unwritable (example_state []) \<and>
   output_filename \<lparr>cls = ReporterXML, output_filename = ''out.xml'', filename_class = Str\<rparr>
     \<notin> unwritable (example_state []) \<and>
   (\<exists>js_info.
      files (snd (ReporterJSON_generate \<lparr>cls = ReporterJSON, output_filename = ''out.json'', filename_class = Str\<rparr>
                    (example_state []))) ''out.json'' = Some (JSONDocument (JDict js_info)) \<and>
      map_of js_info ''start_time'' = Some (JString ''14-03-2020 14:05:09'') \<and>
      map_of js_info ''end_time'' = Some (JString ''14-03-2020 14:05:09'')) \<and>
   (\<exists>first rest.
      files (snd (ReporterXML_generate \<lparr>cls = ReporterXML, output_filename = ''out.xml'', filename_class = Str\<rparr>
                    (example_state []))) ''out.xml'' =
        Some (XMLDocument (XElement ''libs'' [] None
          (first #
           XElement ''start_time'' [] (Some ''14-03-2020 14:05:09'') [] #
           XElement ''end_time'' [] (Some ''14-03-2020 14:05:09'') [] #
           rest)))) \<and>
   strftime example_time ''%H-%m-%Y %H:%M:%S'' = ''14-03-2020 14:05:09''"
  using generate_time_format
          [where json_reporter = "\<lparr>cls = ReporterJSON, output_filename = ''out.json'', filename_class = Str\<rparr>"
             and xml_reporter = "\<lparr>cls = ReporterXML, output_filename = ''out.xml'', filename_class = Str\<rparr>"
             and st = "example_state []" and d = example_time]
  by (auto simp: Let_def example_state_def example_results_def example_time_def
      directive_def pad2_def decimal.simps digit_def)

subsection \<open>Construction\<close>



subsection \<open>The scan results are only read\<close>

text \<open>
  C8: a call of \<open>generate\<close>, on an instance of any class and whether or not the file
  can be opened, leaves the scan results as they were; and the findings appear in the
  output in the order of the input: the \<open>plugins\<close> list of the JSON file is the list of
  the findings' dictionaries, and the \<open>plugins\<close> element of the XML file has the
  findings' elements as its children.
\<close>

theorem generate_reads_only:
  "results (snd (generate self st)) = results st \<and>
   (cls self = ReporterJSON \<and> output_filename self \<notin> unwritable st \<longrightarrow>
      (\<exists>js_info.
         files (snd (generate self st)) (output_filename self) =
           Some (JSONDocument (JDict js_info)) \<and>
         map_of js_info ''plugins'' =
           Some (JList (map (\<lambda>plugin. JDict (json_plugin_of plugin)) (plugins (results st)))))) \<and>
   (cls self = ReporterXML \<and> output_filename self \<notin> unwritable st \<longrightarrow>
      (\<exists>top.
         files (snd (generate self st)) (output_filename self) =
           Some (XMLDocument (XElement ''libs'' [] None
             (top @ [XElement ''plugins'' [] None (map plugin_tree (plugins (results st)))])))))"
proof -
  have "results (snd (generate self st)) = results st"
    by (cases "cls self")
       (simp_all add: generate_def ReporterXML_generate_eq
          ReporterJSON_generate_eq[OF js_info_of_eq])
  moreover have "cls self = ReporterJSON \<and> output_filename self \<notin> unwritable st \<longrightarrow>
      (\<exists>js_info.
         files (snd (generate self st)) (output_filename self) =
           Some (JSONDocument (JDict js_info)) \<and>
         map_of js_info ''plugins'' =
           Some (JList (map (\<lambda>plugin. JDict (json_plugin_of plugin)) (plugins (results st)))))"
    by (simp add: generate_def ReporterJSON_generate_eq[OF js_info_of_eq])
  moreover have "cls self = ReporterXML \<and> output_filename self \<notin> unwritable st \<longrightarrow>
      (\<exists>top.
         files (snd (generate self st)) (output_filename self) =
           Some (XMLDocument (XElement ''libs'' [] None
             (top @ [XElement ''plugins'' [] None (map plugin_tree (plugins (results st)))]))))"
  proof (intro impI)
    assume a: "cls self = ReporterXML \<and> output_filename self \<notin> unwritable st"
    let ?top = "[XElement ''target'' [] (Some (target (results st))) [],
           XElement ''start_time'' []
             (Some (strftime (start_time (results st)) ''%H-%m-%Y %H:%M:%S'')) [],
           XElement ''end_time'' []
             (Some (strftime (end_time (results st)) ''%H-%m-%Y %H:%M:%S'')) [],
           XElement ''wordpress''
             [(''current_version'', WordPressInfo.current_version (wordpress_info (results st))),
              (''last_version'', WordPressInfo.latest_version (wordpress_info (results st)))]
             None []]"
    show "\<exists>top.
         files (snd (generate self st)) (output_filename self) =
           Some (XMLDocument (XElement ''libs'' [] None
             (top @ [XElement ''plugins'' [] None (map plugin_tree (plugins (results st)))])))"
      using a by (intro exI[of _ ?top]) (simp add: generate_def ReporterXML_generate_eq report_tree_def)
  qed
  ultimately show ?thesis by blast
qed

theorem generate_reads_only_witness:
  "cls \<lparr>cls = ReporterJSON, output_filename = ''out.json'', filename_class = Str\<rparr> = ReporterJSON \<and>
   output_filename \<lparr>cls = ReporterJSON, output_filename = ''out.json'', filename_class = Str\<rparr>
     \<notin> unwritable (example_state [akismet, cve_only]) \<and>
   cls \<lparr>cls = ReporterXML, output_filename = ''out.xml'', filename_class = Str\<rparr> = ReporterXML \<and>
   output_filename \<lparr>cls = ReporterXML, output_filename = ''out.xml'', filename_class = Str\<rparr>
     \<notin> unwritable (example_state [akismet, cve_only]) \<and>
   results (snd (generate \<lparr>cls = ReporterJSON, output_filename = ''out.json'', filename_class = Str\<rparr>
                   (example_state [akismet, cve_only]))) =
     example_results [akismet, cve_only] \<and>
   results (snd (generate \<lparr>cls = ReporterXML, output_filename = ''out.xml'', filename_class = Str\<rparr>
                   (example_state [akismet, cve_only]))) =
     example_results [akismet, cve_only] \<and>
   (\<exists>js_info.
      files (snd (generate \<lparr>cls = ReporterJSON, output_filename = ''out.json'', filename_class = Str\<rparr>
                    (example_state [akismet, cve_only]))) ''out.json'' =
        Some (JSONDocument (JDict js_info)) \<and>
      map_of js_info ''plugins'' =
        Some (JList [JDict (json_plugin_of akismet), JDict (json_plugin_of cve_only)])) \<and>
   (\<exists>top.
      files (snd (generate \<lparr>cls = ReporterXML, output_filename = ''out.xml'', filename_class = Str\<rparr>
                    (example_state [akismet, cve_only]))) ''out.xml'' =
        Some (XMLDocument (XElement ''libs'' [] None
          (top @ [XElement ''plugins'' [] None [plugin_tree akismet, plugin_tree cve_only]]))))"
  using generate_reads_only
          [where self = "\<lparr>cls = ReporterJSON, output_filename = ''out.json'', filename_class = Str\<rparr>"
             and st = "example_state [akismet, cve_only]"]
        generate_reads_only
          [where self = "\<lparr>cls = ReporterXML, output_filename = ''out.xml'', filename_class = Str\<rparr>"
             and st = "example_state [akismet, cve_only]"]
  by (simp add: example_state_def example_results_def)

subsection \<open>The file handle\<close>

text \<open>
  C9 says that every call of \<open>generate\<close> releases the file handle it acquires, on
  every path. \<open>ReporterXML.generate\<close> does: the library opens and closes the file.
  \<open>ReporterJSON.generate\<close> opens the file in an argument expression (line 119) and
  never closes it: when the call returns, the file object it opened is still open.
\<close>

theorem ReporterJSON_generate_handle_left_open:
  "handles (snd (ReporterJSON_generate \<lparr>cls = ReporterJSON, output_filename = ''out.json'', filename_class = Str\<rparr>
                   (example_state [akismet]))) =
     [\<lparr>handle_path = ''out.json'', handle_closed = False\<rparr>] \<and>
   handles (snd (ReporterXML_generate \<lparr>cls = ReporterXML, output_filename = ''out.xml'', filename_class = Str\<rparr>
                   (example_state [akismet]))) =
     [\<lparr>handle_path = ''out.xml'', handle_closed = True\<rparr>]"
  by (simp add: ReporterXML_generate_eq ReporterJSON_generate_def js_info_of_def json_plugin_of_def
      getitem_append_def open_w_def json_dump_def write_handle_def example_state_def
      example_results_def akismet_def Let_def)

subsection \<open>The abstract method\<close>

text \<open>
  C10: \<open>generate\<close> of the base class \<open>Reporter\<close> raises \<open>TypeError\<close>, whatever its
  argument: the body calls \<open>NotImplemented\<close>, which is not callable, so the call fails
  before anything is raised on purpose; the error is not the \<open>NotImplementedError\<close>
  that raising an instance of that class would give.
\<close>

theorem Reporter_generate_raises_TypeError:
  "Reporter_generate self info =
     Inl (TypeError (quoted ''NotImplementedType'' @ '' object is not callable'')) \<and>
   Reporter_generate self info \<noteq> Inl (py_raise (py_call NotImplementedError_class)) \<and>
   (cls self = Reporter \<longrightarrow>
      generate self st =
        (Inl (TypeError (quoted ''NotImplementedType'' @ '' object is not callable'')), st))"
  by (simp add: Reporter_generate_def generate_def)

theorem Reporter_generate_raises_TypeError_witness:
  "cls \<lparr>cls = Reporter, output_filename = ''report.xml'', filename_class = Str\<rparr> = Reporter \<and>
   Reporter_generate \<lparr>cls = Reporter, output_filename = ''report.xml'', filename_class = Str\<rparr> PyNone =
     Inl (TypeError (quoted ''NotImplementedType'' @ '' object is not callable'')) \<and>
   generate \<lparr>cls = Reporter, output_filename = ''report.xml'', filename_class = Str\<rparr> (example_state [akismet]) =
     (Inl (TypeError (quoted ''NotImplementedType'' @ '' object is not callable'')),
      example_state [akismet])"
  using Reporter_generate_raises_TypeError
          [where self = "\<lparr>cls = Reporter, output_filename = ''report.xml'', filename_class = Str\<rparr>"
             and info = PyNone and st = "example_state [akismet]"]
  by simp

end
